theory Spec2Isabelle
  imports Complex_Main "HOL-Library.Sublist"
begin

text \<open>
  A model of the todo application: on the server, the request schemas, the handlers of
  the list, update, toggle and statistics routes over the table of todos, and the global
  error handler; on the client, the transport wrapper and the mutation hooks over the
  query cache. Each definition follows the source function it is named after; the
  properties come after the definitions, section by section.
\<close>

section \<open>Values shared by the server and the client\<close>

text \<open>
  JSON values as they travel in request and response bodies. An object is the association
  list of its members, in order, each key once. A number is carried as an integer: the code
  modelled here tests a number of a body only for being one, and renders it as text.
\<close>

datatype json =
    JNull
  | JBool bool
  | JNum int
  | JStr string
  | JArr "json list"
  | JObj "(string \<times> json) list"

text \<open>JavaScript truthiness of a JSON value (\<open>x && ...\<close>, \<open>x || ...\<close>, \<open>if (x)\<close>).\<close>

fun js_truthy :: "json \<Rightarrow> bool" where
  "js_truthy JNull = False"
| "js_truthy (JBool b) = b"
| "js_truthy (JNum n) = (n \<noteq> 0)"
| "js_truthy (JStr s) = (s \<noteq> [])"
| "js_truthy (JArr _) = True"
| "js_truthy (JObj _) = True"

text \<open>\<open>String.prototype.includes\<close>: the argument occurs as a contiguous substring.\<close>

fun str_includes :: "string \<Rightarrow> string \<Rightarrow> bool" where
  "str_includes [] sub = (sub = [])"
| "str_includes (c # cs) sub = (prefix sub (c # cs) \<or> str_includes cs sub)"

text \<open>\<open>Array.prototype.join\<close> on an array of strings.\<close>

fun join :: "string \<Rightarrow> string list \<Rightarrow> string" where
  "join sep [] = []"
| "join sep [x] = x"
| "join sep (x # y # ys) = x @ sep @ join sep (y # ys)"

section \<open>The Todo entity\<close>

text \<open>
  \<open>shared/types\<close> and the table \<open>todo_app.todos\<close> of the migration. Timestamps are
  instants on an integer time line; their text form on the wire is not modelled. Strings
  are sequences of code units. The field \<open>id\<close> is called \<open>todo_id\<close>.
\<close>

datatype priority = Low | Medium | High

record todo =
  todo_id :: string
  title :: string
  description :: "string option"
  completed :: bool
  priority :: priority
  due_date :: "int option"
  created_at :: int
  updated_at :: int

text \<open>The body of \<open>GET /api/todos\<close>: the rows of the page and the pagination block.
  \<open>totalPages\<close> is \<open>None\<close> where the code computes a number that is not finite.\<close>

record pagination =
  pg_page :: int
  pg_limit :: int
  pg_total :: int
  pg_totalPages :: "int option"

record stats =
  st_total :: int
  st_completed :: int
  st_incomplete :: int
  st_completionRate :: int
  st_byPriority :: "(priority \<times> int) list"
  st_overdue :: int

datatype body =
    JsonBody json
  | TodoBody todo
  | ListBody "todo list" pagination
  | StatsBody stats

record response =
  res_status :: int
  res_body :: body

section \<open>Server: the global error handler\<close>

text \<open>
  \<open>middleware/errorHandler.ts\<close>. A value reaching the handler is either a
  \<open>ZodError\<close> with its issues (each a path, its segments already rendered as strings,
  and a message) or another error object with the optional fields of \<open>ApiError\<close>:
  \<open>message\<close>, \<open>statusCode\<close>, \<open>details\<close>.
\<close>

record zod_issue =
  issue_path :: "string list"
  issue_message :: string

datatype api_error =
    ZodError "zod_issue list"
  | ApiError (err_message: "string option") (err_statusCode: "int option")
      (err_details: "json option")

text \<open>\<open>createError(message, statusCode, details?)\<close>.\<close>

definition createError :: "string \<Rightarrow> int \<Rightarrow> json option \<Rightarrow> api_error" where
  "createError message statusCode details = ApiError (Some message) (Some statusCode) details"

text \<open>\<open>err.message?.includes(s)\<close>: false when the message is undefined.\<close>

definition message_includes :: "string option \<Rightarrow> string \<Rightarrow> bool" where
  "message_includes m s = (case m of None \<Rightarrow> False | Some t \<Rightarrow> str_includes t s)"

text \<open>\<open>err.statusCode || 500\<close>: an undefined or zero status code falls back to 500.\<close>

definition status_or_500 :: "int option \<Rightarrow> int" where
  "status_or_500 c = (case c of None \<Rightarrow> 500 | Some n \<Rightarrow> if n = 0 then 500 else n)"

text \<open>\<open>...(err.details && { details: err.details })\<close>: spread only when truthy.\<close>

definition details_member :: "json option \<Rightarrow> (string \<times> json) list" where
  "details_member d =
     (case d of None \<Rightarrow> [] | Some v \<Rightarrow> if js_truthy v then [(''details'', v)] else [])"

definition issue_json :: "zod_issue \<Rightarrow> json" where
  "issue_json e =
     JObj [(''path'', JStr (join ''.'' (issue_path e))), (''message'', JStr (issue_message e))]"

text \<open>
  The member \<open>error\<close> of the body: \<open>JSON.stringify\<close> leaves out a member whose value
  is undefined.
\<close>

definition error_member :: "string option \<Rightarrow> (string \<times> json) list" where
  "error_member m = (case m of None \<Rightarrow> [] | Some t \<Rightarrow> [(''error'', JStr t)])"

fun errorHandler :: "api_error \<Rightarrow> response" where
  "errorHandler (ZodError issues) =
     \<lparr>res_status = 400,
      res_body = JsonBody (JObj [(''error'', JStr ''Validation failed''),
                                 (''details'', JArr (map issue_json issues))])\<rparr>"
| "errorHandler (ApiError m c d) =
     (if message_includes m ''duplicate key'' then
        \<lparr>res_status = 409,
         res_body = JsonBody (JObj [(''error'', JStr ''Resource already exists'')])\<rparr>
      else if message_includes m ''violates foreign key'' then
        \<lparr>res_status = 400,
         res_body = JsonBody (JObj [(''error'', JStr ''Invalid reference'')])\<rparr>
      else
        let statusCode = status_or_500 c;
            message = (if statusCode = 500 then Some ''Internal server error'' else m)
        in \<lparr>res_status = statusCode,
            res_body = JsonBody (JObj (error_member message @ details_member d))\<rparr>)"

text \<open>The member of a response body read by its name.\<close>

definition body_field :: "response \<Rightarrow> string \<Rightarrow> json option" where
  "body_field r k = (case res_body r of JsonBody (JObj ms) \<Rightarrow> map_of ms k | _ \<Rightarrow> None)"

section \<open>Server: request validation\<close>

text \<open>
  \<open>schemas/todo.schema.ts\<close> and \<open>middleware/validation.ts\<close>. A schema turns the
  raw JSON into a typed input or into the list of issues of a \<open>ZodError\<close>; the
  middleware passes the error to the global error handler. An object schema reads the
  keys of its shape and drops every other key of the input.
\<close>

fun json_type :: "json \<Rightarrow> string" where
  "json_type JNull = ''null''"
| "json_type (JBool _) = ''boolean''"
| "json_type (JNum _) = ''number''"
| "json_type (JStr _) = ''string''"
| "json_type (JArr _) = ''array''"
| "json_type (JObj _) = ''object''"

definition issue :: "string list \<Rightarrow> string \<Rightarrow> zod_issue" where
  "issue p m = \<lparr>issue_path = p, issue_message = m\<rparr>"

definition expected :: "string \<Rightarrow> string \<Rightarrow> json \<Rightarrow> zod_issue" where
  "expected k ty v = issue [k] (''Expected '' @ ty @ '', received '' @ json_type v)"

definition issues_of :: "zod_issue list + 'a \<Rightarrow> zod_issue list" where
  "issues_of r = (case r of Inl is \<Rightarrow> is | Inr _ \<Rightarrow> [])"

text \<open>A field that may be left out, be \<open>null\<close>, or carry a value.\<close>

datatype 'a nullish = Undefined | Null | Given 'a

text \<open>\<open>priorityEnum = z.enum(['low', 'medium', 'high'])\<close>.\<close>

definition priorityEnum :: "string \<Rightarrow> priority option" where
  "priorityEnum s =
     (if s = ''low'' then Some Low else if s = ''medium'' then Some Medium
      else if s = ''high'' then Some High else None)"

text \<open>The fields of \<open>updateTodoSchema\<close>, in the order of its shape.\<close>

definition parse_title :: "json option \<Rightarrow> zod_issue list + string option" where
  "parse_title v =
     (case v of
        None \<Rightarrow> Inr None
      | Some (JStr s) \<Rightarrow>
          (let is = (if length s < 1 then [issue [''title''] ''Title is required''] else [])
                    @ (if length s > 500 then [issue [''title''] ''Title too long''] else [])
           in if is = [] then Inr (Some s) else Inl is)
      | Some j \<Rightarrow> Inl [expected ''title'' ''string'' j])"

definition parse_description :: "json option \<Rightarrow> zod_issue list + string nullish" where
  "parse_description v =
     (case v of
        None \<Rightarrow> Inr Undefined
      | Some JNull \<Rightarrow> Inr Null
      | Some (JStr s) \<Rightarrow>
          (if length s > 5000 then Inl [issue [''description''] ''Description too long'']
           else Inr (Given s))
      | Some j \<Rightarrow> Inl [expected ''description'' ''string'' j])"

definition priority_options :: string where
  "priority_options =
     [CHR 0x27] @ ''low'' @ [CHR 0x27] @ '' | '' @ [CHR 0x27] @ ''medium'' @ [CHR 0x27]
     @ '' | '' @ [CHR 0x27] @ ''high'' @ [CHR 0x27]"

definition parse_priority :: "json option \<Rightarrow> zod_issue list + priority option" where
  "parse_priority v =
     (case v of
        None \<Rightarrow> Inr None
      | Some (JStr s) \<Rightarrow>
          (case priorityEnum s of
             Some p \<Rightarrow> Inr (Some p)
           | None \<Rightarrow> Inl [issue [''priority'']
               (''Invalid enum value. Expected '' @ priority_options @ '', received ''
                @ [CHR 0x27] @ s @ [CHR 0x27])])
      | Some j \<Rightarrow> Inl [expected ''priority'' priority_options j])"

text \<open>\<open>z.string().datetime()\<close>: the test on the text is a parameter.\<close>

definition parse_due_date ::
  "(string \<Rightarrow> bool) \<Rightarrow> json option \<Rightarrow> zod_issue list + string nullish" where
  "parse_due_date datetime v =
     (case v of
        None \<Rightarrow> Inr Undefined
      | Some JNull \<Rightarrow> Inr Null
      | Some (JStr s) \<Rightarrow>
          (if datetime s then Inr (Given s) else Inl [issue [''due_date''] ''Invalid datetime''])
      | Some j \<Rightarrow> Inl [expected ''due_date'' ''string'' j])"

definition parse_completed :: "json option \<Rightarrow> zod_issue list + bool option" where
  "parse_completed v =
     (case v of
        None \<Rightarrow> Inr None
      | Some (JBool b) \<Rightarrow> Inr (Some b)
      | Some j \<Rightarrow> Inl [expected ''completed'' ''boolean'' j])"

record UpdateTodoInput =
  upd_title :: "string option"
  upd_description :: "string nullish"
  upd_priority :: "priority option"
  upd_due_date :: "string nullish"
  upd_completed :: "bool option"

definition updateTodoSchema ::
  "(string \<Rightarrow> bool) \<Rightarrow> json \<Rightarrow> zod_issue list + UpdateTodoInput" where
  "updateTodoSchema datetime body =
     (case body of
        JObj ms \<Rightarrow>
          (let t = parse_title (map_of ms ''title'');
               d = parse_description (map_of ms ''description'');
               p = parse_priority (map_of ms ''priority'');
               dd = parse_due_date datetime (map_of ms ''due_date'');
               c = parse_completed (map_of ms ''completed'')
           in case (t, d, p, dd, c) of
                (Inr t', Inr d', Inr p', Inr dd', Inr c') \<Rightarrow>
                  Inr \<lparr>upd_title = t', upd_description = d', upd_priority = p',
                       upd_due_date = dd', upd_completed = c'\<rparr>
              | _ \<Rightarrow> Inl (issues_of t @ issues_of d @ issues_of p @ issues_of dd @ issues_of c))
      | j \<Rightarrow> Inl [issue [] (''Expected object, received '' @ json_type j)])"

text \<open>
  \<open>validateParams(uuidSchema.transform((id) => ({ id })))\<close>: the string schema
  \<open>z.string().uuid('Invalid ID format')\<close>, with the test on the text a parameter, is
  applied to the value of \<open>req.params\<close>; the transform wraps its output \<open>s\<close> into the
  object \<open>{id: s}\<close>, given here by \<open>s\<close>.
\<close>

definition uuidParams :: "(string \<Rightarrow> bool) \<Rightarrow> json \<Rightarrow> zod_issue list + string" where
  "uuidParams uuid params =
     (case params of
        JStr s \<Rightarrow> if uuid s then Inr s else Inl [issue [] ''Invalid ID format'']
      | j \<Rightarrow> Inl [issue [] (''Expected string, received '' @ json_type j)])"

section \<open>Server: the table and its statements\<close>

text \<open>
  The table \<open>todo_app.todos\<close> is the list of its rows. A statement that the database
  rejects raises an error that carries the database's message and no status code. The id
  given to a statement is taken to be the text of a UUID, which the parameter middleware is
  there to ensure, and a text parameter to be free of the NUL character; the database
  rejects the others.
\<close>

type_synonym table = "todo list"

definition db_error :: "string \<Rightarrow> api_error" where
  "db_error m = ApiError (Some m) None None"

definition find_row :: "string \<Rightarrow> table \<Rightarrow> todo option" where
  "find_row i tbl = find (\<lambda>r. todo_id r = i) tbl"

text \<open>
  The assignments of an \<open>UPDATE ... SET\<close>, with the parameter each one carries. A due
  date travels as text and the database converts it to a timestamp; the conversion
  \<open>ts\<close> is a parameter and yields \<open>None\<close> for a text the database rejects.
\<close>

datatype set_clause =
    SetTitle string
  | SetDescription "string option"
  | SetPriority priority
  | SetDueDate "string option"
  | SetCompleted bool
  | SetCompletedNot
  | SetUpdatedAtNow

fun bind_ok :: "(string \<Rightarrow> int option) \<Rightarrow> set_clause \<Rightarrow> bool" where
  "bind_ok ts (SetDueDate (Some s)) = (ts s \<noteq> None)"
| "bind_ok ts _ = True"

fun apply_set :: "(string \<Rightarrow> int option) \<Rightarrow> int \<Rightarrow> todo \<Rightarrow> set_clause \<Rightarrow> todo \<Rightarrow> todo" where
  "apply_set ts now old (SetTitle t) r = r\<lparr>title := t\<rparr>"
| "apply_set ts now old (SetDescription d) r = r\<lparr>description := d\<rparr>"
| "apply_set ts now old (SetPriority p) r = r\<lparr>priority := p\<rparr>"
| "apply_set ts now old (SetDueDate None) r = r\<lparr>due_date := None\<rparr>"
| "apply_set ts now old (SetDueDate (Some s)) r = r\<lparr>due_date := ts s\<rparr>"
| "apply_set ts now old (SetCompleted b) r = r\<lparr>completed := b\<rparr>"
| "apply_set ts now old SetCompletedNot r = r\<lparr>completed := \<not> completed old\<rparr>"
| "apply_set ts now old SetUpdatedAtNow r = r\<lparr>updated_at := now\<rparr>"

text \<open>
  The trigger \<open>update_todos_updated_at\<close> of the migration: before every update of a
  row, \<open>NEW.updated_at = NOW()\<close>.
\<close>

definition update_updated_at_column :: "int \<Rightarrow> todo \<Rightarrow> todo" where
  "update_updated_at_column now new = new\<lparr>updated_at := now\<rparr>"

text \<open>The new version of one row: the assignments, each reading the old row, then the trigger.\<close>

definition updated_row :: "(string \<Rightarrow> int option) \<Rightarrow> int \<Rightarrow> set_clause list \<Rightarrow> todo \<Rightarrow> todo" where
  "updated_row ts now sets old =
     update_updated_at_column now (fold (apply_set ts now old) sets old)"

text \<open>
  \<open>UPDATE todo_app.todos SET ... WHERE id = $n RETURNING *\<close>: the parameters are bound
  first, and a rejected one fails the statement before any row is written.
\<close>

definition sql_update_by_id ::
  "(string \<Rightarrow> int option) \<Rightarrow> int \<Rightarrow> set_clause list \<Rightarrow> string \<Rightarrow> table
     \<Rightarrow> api_error + (table \<times> todo list)" where
  "sql_update_by_id ts now sets i tbl =
     (if \<not> list_all (bind_ok ts) sets then
        Inl (db_error ''invalid input syntax for type timestamp'')
      else
        Inr (map (\<lambda>r. if todo_id r = i then updated_row ts now sets r else r) tbl,
             map (updated_row ts now sets) (filter (\<lambda>r. todo_id r = i) tbl)))"

section \<open>Server: the update and toggle handlers\<close>

text \<open>
  \<open>routes/todos.ts\<close>. A handler is the body of its \<open>try\<close>: it returns the table
  after its statements and either the value it sends or the error it throws.
\<close>

definition build_updates :: "UpdateTodoInput \<Rightarrow> set_clause list" where
  "build_updates input =
     (case upd_title input of None \<Rightarrow> [] | Some t \<Rightarrow> [SetTitle t])
     @ (case upd_description input of
          Undefined \<Rightarrow> [] | Null \<Rightarrow> [SetDescription None] | Given d \<Rightarrow> [SetDescription (Some d)])
     @ (case upd_priority input of None \<Rightarrow> [] | Some p \<Rightarrow> [SetPriority p])
     @ (case upd_due_date input of
          Undefined \<Rightarrow> [] | Null \<Rightarrow> [SetDueDate None] | Given s \<Rightarrow> [SetDueDate (Some s)])
     @ (case upd_completed input of None \<Rightarrow> [] | Some b \<Rightarrow> [SetCompleted b])"

definition first_row_or_404 :: "table \<times> todo list \<Rightarrow> table \<times> (api_error + todo)" where
  "first_row_or_404 res =
     (case res of
        (tbl, []) \<Rightarrow> (tbl, Inl (createError ''Todo not found'' 404 None))
      | (tbl, r # _) \<Rightarrow> (tbl, Inr r))"

definition patch_todo ::
  "(string \<Rightarrow> int option) \<Rightarrow> int \<Rightarrow> table \<Rightarrow> string \<Rightarrow> UpdateTodoInput
     \<Rightarrow> table \<times> (api_error + todo)" where
  "patch_todo ts now tbl i input =
     (let updates = build_updates input in
      if length updates = 0 then (tbl, Inl (createError ''No fields to update'' 400 None))
      else
        case sql_update_by_id ts now (updates @ [SetUpdatedAtNow]) i tbl of
          Inl e \<Rightarrow> (tbl, Inl e)
        | Inr res \<Rightarrow> first_row_or_404 res)"

definition toggle_todo :: "int \<Rightarrow> table \<Rightarrow> string \<Rightarrow> table \<times> (api_error + todo)" where
  "toggle_todo now tbl i =
     (case sql_update_by_id (\<lambda>_. None) now [SetCompletedNot, SetUpdatedAtNow] i tbl of
        Inl e \<Rightarrow> (tbl, Inl e)
      | Inr res \<Rightarrow> first_row_or_404 res)"

text \<open>
  What the client receives: the value sent with \<open>res.json\<close> (status 200), or the answer of
  the global error handler to the error passed to \<open>next\<close>.
\<close>

definition send_todo :: "api_error + todo \<Rightarrow> response" where
  "send_todo r =
     (case r of
        Inl e \<Rightarrow> errorHandler e
      | Inr row \<Rightarrow> \<lparr>res_status = 200, res_body = TodoBody row\<rparr>)"

definition patch_handler ::
  "(string \<Rightarrow> int option) \<Rightarrow> int \<Rightarrow> table \<Rightarrow> string \<Rightarrow> UpdateTodoInput \<Rightarrow> table \<times> response" where
  "patch_handler ts now tbl i input =
     (let (tbl', r) = patch_todo ts now tbl i input in (tbl', send_todo r))"

definition toggle_handler :: "int \<Rightarrow> table \<Rightarrow> string \<Rightarrow> table \<times> response" where
  "toggle_handler now tbl i = (let (tbl', r) = toggle_todo now tbl i in (tbl', send_todo r))"

text \<open>
  The routes \<open>PATCH /:id\<close> and \<open>POST /:id/toggle\<close> as registered. The parameter
  middleware runs first, on the object \<open>{id: ...}\<close> that the router puts in
  \<open>req.params\<close>; then, for \<open>PATCH\<close>, \<open>validateBody(updateTodoSchema)\<close>; then the
  handler, which reads the id that the parameter middleware has stored. A middleware that
  fails passes its error to the global error handler and the later functions do not run.
\<close>

definition patch_route ::
  "(string \<Rightarrow> bool) \<Rightarrow> (string \<Rightarrow> bool) \<Rightarrow> (string \<Rightarrow> int option) \<Rightarrow> int \<Rightarrow> table \<Rightarrow> string
     \<Rightarrow> json \<Rightarrow> table \<times> response" where
  "patch_route uuid datetime ts now tbl i body =
     (case uuidParams uuid (JObj [(''id'', JStr i)]) of
        Inl is \<Rightarrow> (tbl, errorHandler (ZodError is))
      | Inr id' \<Rightarrow>
          (case updateTodoSchema datetime body of
             Inl is \<Rightarrow> (tbl, errorHandler (ZodError is))
           | Inr input \<Rightarrow> patch_handler ts now tbl id' input))"

definition toggle_route :: "(string \<Rightarrow> bool) \<Rightarrow> int \<Rightarrow> table \<Rightarrow> string \<Rightarrow> table \<times> response" where
  "toggle_route uuid now tbl i =
     (case uuidParams uuid (JObj [(''id'', JStr i)]) of
        Inl is \<Rightarrow> (tbl, errorHandler (ZodError is))
      | Inr id' \<Rightarrow> toggle_handler now tbl id')"

section \<open>Server: numbers\<close>

text \<open>
  A JavaScript Number is tracked when it is an integer of magnitude at most \<open>2^53 - 1\<close>,
  where the arithmetic of the handlers is exact; \<open>Other\<close> stands for every Number this
  development does not follow (a fraction, an infinity, NaN, a larger integer).
\<close>

datatype number = Whole int | Other

definition safe_integer :: "int \<Rightarrow> bool" where
  "safe_integer n = (\<bar>n\<bar> \<le> 9007199254740991)"

definition digit_value :: "char \<Rightarrow> int option" where
  "digit_value c =
     (let n = (of_char c :: int) in if 48 \<le> n \<and> n \<le> 57 then Some (n - 48) else None)"

fun decimal_value :: "int \<Rightarrow> string \<Rightarrow> int option" where
  "decimal_value acc [] = Some acc"
| "decimal_value acc (c # cs) =
     (case digit_value c of None \<Rightarrow> None | Some d \<Rightarrow> decimal_value (10 * acc + d) cs)"

text \<open>
  \<open>Number(s)\<close> for a string: the empty string is 0, a string of decimal digits with
  an optional sign is the integer it denotes. The other forms that \<open>Number\<close> converts
  (surrounding white space, fractions, exponents, other radixes, Infinity) and the texts
  that give NaN are not followed.
\<close>

definition whole :: "int \<Rightarrow> number" where
  "whole n = (if safe_integer n then Whole n else Other)"

definition js_Number :: "string \<Rightarrow> number" where
  "js_Number s =
     (case s of
        [] \<Rightarrow> Whole 0
      | c # cs \<Rightarrow>
          if c = CHR ''-'' \<and> cs \<noteq> [] then
            (case decimal_value 0 cs of None \<Rightarrow> Other | Some n \<Rightarrow> whole (- n))
          else if c = CHR ''+'' \<and> cs \<noteq> [] then
            (case decimal_value 0 cs of None \<Rightarrow> Other | Some n \<Rightarrow> whole n)
          else
            (case decimal_value 0 (c # cs) of None \<Rightarrow> Other | Some n \<Rightarrow> whole n))"

section \<open>Server: double precision arithmetic\<close>

text \<open>
  A finite double that is not negative is written \<open>(m, e)\<close> for \<open>m * 2^e\<close>.
  \<open>round_ratio n d\<close> is the double nearest to the quotient \<open>n / d\<close> of two positive
  integers, ties to the even mantissa, with a mantissa of 53 bits (IEEE 754 binary64,
  round to nearest; the quotients that occur here are far from the subnormal and the
  overflow range).
\<close>

type_synonym double = "int \<times> int"

text \<open>\<open>pow2 e\<close> is \<open>2^e\<close> for an exponent that is not negative.\<close>

function pow2 :: "int \<Rightarrow> int" where
  "pow2 e = (if e \<le> 0 then 1 else 2 * pow2 (e - 1))"
  by pat_completeness auto
termination
  by (relation "measure nat") auto

declare pow2.simps [simp del]

text \<open>The number of binary digits of a positive integer.\<close>

function bit_length :: "int \<Rightarrow> int" where
  "bit_length n = (if n \<le> 0 then 0 else 1 + bit_length (n div 2))"
  by pat_completeness auto
termination
  by (relation "measure nat") auto

declare bit_length.simps [simp del]

text \<open>\<open>scale n d e\<close> is the pair \<open>(n', d')\<close> with \<open>n' / d' = (n / d) / 2^e\<close>.\<close>

definition scale :: "int \<Rightarrow> int \<Rightarrow> int \<Rightarrow> int \<times> int" where
  "scale n d e = (if 0 \<le> e then (n, d * pow2 e) else (n * pow2 (- e), d))"

definition round_half_even :: "int \<times> int \<Rightarrow> int" where
  "round_half_even nd =
     (let q = fst nd div snd nd; r = fst nd mod snd nd in
      if 2 * r < snd nd then q
      else if snd nd < 2 * r then q + 1
      else if even q then q else q + 1)"

definition floor_log2 :: "int \<Rightarrow> int \<Rightarrow> int" where
  "floor_log2 n d =
     (let k = bit_length n - bit_length d in
      if snd (scale n d k) \<le> fst (scale n d k) then k else k - 1)"

definition round_ratio :: "int \<Rightarrow> int \<Rightarrow> double" where
  "round_ratio n d = (let e = floor_log2 n d - 52 in (round_half_even (scale n d e), e))"

text \<open>
  The operators of the code on these values: the quotient of two counts, the product of
  a double and a positive integer; zero is \<open>(0, 0)\<close>.
\<close>

definition js_divide :: "int \<Rightarrow> int \<Rightarrow> double" where
  "js_divide a b = (if a = 0 then (0, 0) else round_ratio a b)"

definition js_times :: "double \<Rightarrow> int \<Rightarrow> double" where
  "js_times x k =
     (if fst x = 0 then (0, 0)
      else if 0 \<le> snd x then round_ratio (fst x * k * pow2 (snd x)) 1
      else round_ratio (fst x * k) (pow2 (- snd x)))"

text \<open>\<open>Math.round\<close>: the nearest integer, a tie going up.\<close>

definition Math_round :: "double \<Rightarrow> int" where
  "Math_round x =
     (if 0 \<le> snd x then fst x * pow2 (snd x)
      else (2 * fst x + pow2 (- snd x)) div pow2 (1 - snd x))"

text \<open>\<open>Math.ceil\<close>: the least integer that is not below the value.\<close>

definition Math_ceil :: "double \<Rightarrow> int" where
  "Math_ceil x =
     (if 0 \<le> snd x then fst x * pow2 (snd x) else - ((- fst x) div pow2 (- snd x)))"

text \<open>
  \<open>Math.ceil(a / b)\<close> for a count \<open>a\<close> and a divisor \<open>b\<close> that is not negative. A
  zero divisor gives an infinity or NaN: \<open>None\<close>.
\<close>

definition js_ceil_div :: "int \<Rightarrow> int \<Rightarrow> int option" where
  "js_ceil_div a b = (if b = 0 then None else Some (Math_ceil (js_divide a b)))"

section \<open>Server: listing\<close>

text \<open>
  The query string of \<open>GET /api/todos\<close>, each parameter absent or a single text, and
  \<open>listTodosQuerySchema\<close>. A transform runs on the output of the schema before it,
  also when that schema is optional and its output undefined.
\<close>

record RawListQuery =
  raw_completed :: "string option"
  raw_priority :: "string option"
  raw_search :: "string option"
  raw_page :: "string option"
  raw_limit :: "string option"

text \<open>
  The fields as the handler reads them, each possibly undefined: the handler tests
  \<open>completed !== undefined\<close> and gives \<open>page\<close> and \<open>limit\<close> defaults.
\<close>

record ListTodosQuery =
  lq_completed :: "bool option"
  lq_priority :: "priority option"
  lq_search :: "string option"
  lq_page :: "number option"
  lq_limit :: "number option"

text \<open>\<open>z.enum(['true', 'false']).optional().transform(val => val === 'true')\<close>.\<close>

definition parse_completed_param :: "string option \<Rightarrow> zod_issue list + bool" where
  "parse_completed_param v =
     (case v of
        None \<Rightarrow> Inr (v = Some ''true'')
      | Some s \<Rightarrow>
          if s = ''true'' \<or> s = ''false'' then Inr (v = Some ''true'')
          else Inl [issue [''completed'']
                 (''Invalid enum value. Expected '' @ [CHR 0x27] @ ''true'' @ [CHR 0x27] @ '' | ''
                  @ [CHR 0x27] @ ''false'' @ [CHR 0x27] @ '', received ''
                  @ [CHR 0x27] @ s @ [CHR 0x27])])"

definition parse_priority_param :: "string option \<Rightarrow> zod_issue list + priority option" where
  "parse_priority_param v = parse_priority (map_option JStr v)"

text \<open>\<open>z.string().optional().default(d).transform(Number)\<close>.\<close>

definition parse_number_param :: "string \<Rightarrow> string option \<Rightarrow> number" where
  "parse_number_param d v = js_Number (case v of None \<Rightarrow> d | Some s \<Rightarrow> s)"

definition listTodosQuerySchema :: "RawListQuery \<Rightarrow> zod_issue list + ListTodosQuery" where
  "listTodosQuerySchema raw =
     (let c = parse_completed_param (raw_completed raw);
          p = parse_priority_param (raw_priority raw)
      in case (c, p) of
           (Inr c', Inr p') \<Rightarrow>
             Inr \<lparr>lq_completed = Some c', lq_priority = p', lq_search = raw_search raw,
                  lq_page = Some (parse_number_param ''1'' (raw_page raw)),
                  lq_limit = Some (parse_number_param ''50'' (raw_limit raw))\<rparr>
         | _ \<Rightarrow> Inl (issues_of c @ issues_of p))"

text \<open>
  \<open>LIKE\<close> of the database, pattern first: \<open>%\<close> stands for any text, \<open>_\<close> for any one
  character, and a backslash makes the next character of the pattern stand for itself. (For
  a pattern that ends in a lone backslash the database raises an error; a pattern built as
  \<open>%search%\<close> never does.) \<open>ILIKE\<close> compares without regard to the case of the
  letters A to Z.
\<close>

fun like_match :: "string \<Rightarrow> string \<Rightarrow> bool" where
  "like_match [] t = (t = [])"
| "like_match (p # ps) [] = (p = CHR ''%'' \<and> like_match ps [])"
| "like_match (p # ps) (c # cs) =
     (if p = CHR ''%'' then like_match ps (c # cs) \<or> like_match (p # ps) cs
      else if p = CHR ''_'' then like_match ps cs
      else if p = CHR 0x5C then
        (case ps of [] \<Rightarrow> False | e # ps' \<Rightarrow> c = e \<and> like_match ps' cs)
      else c = p \<and> like_match ps cs)"

definition to_lower :: "char \<Rightarrow> char" where
  "to_lower c =
     (let n = (of_char c :: nat) in if 65 \<le> n \<and> n \<le> 90 then char_of (n + 32) else c)"

definition ilike :: "string \<Rightarrow> string \<Rightarrow> bool" where
  "ilike text pattern = like_match (map to_lower pattern) (map to_lower text)"

text \<open>A text is plain when it holds none of the three characters that a pattern reads.\<close>

definition plain :: "string \<Rightarrow> bool" where
  "plain s = (CHR ''%'' \<notin> set s \<and> CHR ''_'' \<notin> set s \<and> CHR 0x5C \<notin> set s)"

text \<open>
  The \<open>WHERE\<close> clause that both statements of the handler assemble: a condition on
  \<open>completed\<close> when the field is not undefined, on \<open>priority\<close> when it is set, and on
  \<open>title\<close> or \<open>description\<close> when \<open>search\<close> is a non-empty text. A \<open>NULL\<close>
  description satisfies no \<open>ILIKE\<close>.
\<close>

definition search_pattern :: "string option \<Rightarrow> string option" where
  "search_pattern s =
     (case s of None \<Rightarrow> None | Some x \<Rightarrow> if x = [] then None else Some (''%'' @ x @ ''%''))"

definition where_clause :: "ListTodosQuery \<Rightarrow> todo \<Rightarrow> bool" where
  "where_clause q r =
     ((case lq_completed q of None \<Rightarrow> True | Some b \<Rightarrow> completed r = b)
      \<and> (case lq_priority q of None \<Rightarrow> True | Some p \<Rightarrow> priority r = p)
      \<and> (case search_pattern (lq_search q) of
            None \<Rightarrow> True
          | Some pat \<Rightarrow>
              ilike (title r) pat
              \<or> (case description r of None \<Rightarrow> False | Some d \<Rightarrow> ilike d pat)))"

text \<open>
  \<open>ORDER BY created_at DESC LIMIT l OFFSET o\<close>. Rows created at the same instant come
  in the order of the table, which is one of the orders the database may return. A
  negative limit or offset is an error of the database.
\<close>

definition order_by_created_at_desc :: "todo list \<Rightarrow> todo list" where
  "order_by_created_at_desc rows = sort_key (\<lambda>r. - created_at r) rows"

definition matching_rows :: "ListTodosQuery \<Rightarrow> table \<Rightarrow> todo list" where
  "matching_rows q tbl = order_by_created_at_desc (filter (where_clause q) tbl)"

definition sql_select_page :: "ListTodosQuery \<Rightarrow> int \<Rightarrow> int \<Rightarrow> table \<Rightarrow> api_error + todo list" where
  "sql_select_page q limit offset tbl =
     (if offset < 0 then Inl (db_error ''OFFSET must not be negative'')
      else if limit < 0 then Inl (db_error ''LIMIT must not be negative'')
      else Inr (take (nat limit) (drop (nat offset) (matching_rows q tbl))))"

definition sql_count :: "ListTodosQuery \<Rightarrow> table \<Rightarrow> int" where
  "sql_count q tbl = int (length (filter (where_clause q) tbl))"

text \<open>
  The handler of \<open>GET /api/todos\<close>. The result is \<open>None\<close> where \<open>page\<close>, \<open>limit\<close>,
  the offset computed from them or the count that \<open>parseInt\<close> reads back is a Number
  that is not tracked.
\<close>

definition list_todos :: "table \<Rightarrow> ListTodosQuery \<Rightarrow> (api_error + todo list \<times> pagination) option" where
  "list_todos tbl q =
     (let page = (case lq_page q of None \<Rightarrow> Whole 1 | Some n \<Rightarrow> n);
          limit = (case lq_limit q of None \<Rightarrow> Whole 50 | Some n \<Rightarrow> n)
      in case (page, limit) of
           (Whole p, Whole l) \<Rightarrow>
             (case whole ((p - 1) * l) of
                Other \<Rightarrow> None
              | Whole offset \<Rightarrow>
                  (case sql_select_page q l offset tbl of
                     Inl e \<Rightarrow> Some (Inl e)
                   | Inr rows \<Rightarrow>
                       (case whole (sql_count q tbl) of
                          Other \<Rightarrow> None
                        | Whole total_count \<Rightarrow>
                            Some (Inr (rows, \<lparr>pg_page = p, pg_limit = l, pg_total = total_count,
                                              pg_totalPages = js_ceil_div total_count l\<rparr>)))))
         | _ \<Rightarrow> None)"

definition send_list :: "api_error + todo list \<times> pagination \<Rightarrow> response" where
  "send_list r =
     (case r of
        Inl e \<Rightarrow> errorHandler e
      | Inr (rows, p) \<Rightarrow> \<lparr>res_status = 200, res_body = ListBody rows p\<rparr>)"

text \<open>The route: \<open>validateQuery(listTodosQuerySchema)\<close>, then the handler.\<close>

definition list_route :: "table \<Rightarrow> RawListQuery \<Rightarrow> response option" where
  "list_route tbl raw =
     (case listTodosQuerySchema raw of
        Inl is \<Rightarrow> Some (errorHandler (ZodError is))
      | Inr q \<Rightarrow> map_option send_list (list_todos tbl q))"

section \<open>Server: statistics\<close>

text \<open>
  The handler of \<open>GET /api/stats\<close>: four statements, whose counts \<open>parseInt\<close> reads
  back, and the figures computed from them. The counts by priority list the priorities
  that have a row, high first.
\<close>

definition overdue_row :: "int \<Rightarrow> todo \<Rightarrow> bool" where
  "overdue_row now r =
     ((case due_date r of None \<Rightarrow> False | Some d \<Rightarrow> d < now) \<and> completed r = False)"

definition count_by_priority :: "table \<Rightarrow> (priority \<times> int) list" where
  "count_by_priority tbl =
     filter (\<lambda>pc. 0 < snd pc)
       (map (\<lambda>p. (p, int (length (filter (\<lambda>r. priority r = p) tbl)))) [High, Medium, Low])"

definition completionRate :: "int \<Rightarrow> int \<Rightarrow> int" where
  "completionRate completed_count total_count =
     (if 0 < total_count then Math_round (js_times (js_divide completed_count total_count) 100)
      else 0)"

definition get_stats :: "int \<Rightarrow> table \<Rightarrow> stats" where
  "get_stats now tbl =
     (let total_count = int (length tbl);
          completed_count = int (length (filter (\<lambda>r. completed r = True) tbl))
      in \<lparr>st_total = total_count,
          st_completed = completed_count,
          st_incomplete = total_count - completed_count,
          st_completionRate = completionRate completed_count total_count,
          st_byPriority = count_by_priority tbl,
          st_overdue = int (length (filter (overdue_row now) tbl))\<rparr>)"

section \<open>Client: the transport\<close>




record ApiClientError =
  ace_message :: string
  ace_statusCode :: int
  ace_details :: "json option"


text \<open>The decimal text of an integer, and \<open>String(v)\<close> for a JSON value.\<close>

definition digit_char :: "nat \<Rightarrow> char" where
  "digit_char d = char_of (48 + d)"

function decimal_digits :: "nat \<Rightarrow> string" where
  "decimal_digits n =
     (if n < 10 then [digit_char n] else decimal_digits (n div 10) @ [digit_char (n mod 10)])"
  by pat_completeness auto
termination
  by (relation "measure id") auto

declare decimal_digits.simps [simp del]

definition decimal_text :: "int \<Rightarrow> string" where
  "decimal_text i = (if i < 0 then CHR ''-'' # decimal_digits (nat (- i)) else decimal_digits (nat i))"







section \<open>Client: the query cache\<close>

text \<open>
  The cache of the query client, with the keys of \<open>queryKeys\<close> and the data types that
  \<open>shared/types\<close> declares for them. A list query has the key \<open>['todos', 'list', filters]\<close>
  (\<open>ListOf filters\<close>, the filters possibly undefined); \<open>AllLists\<close> is the key
  \<open>['todos', 'list']\<close> itself, which is what \<open>queryKeys.todos.lists()\<close> returns. A
  query holds its data, if it has any yet, and the flag that invalidation sets. Reading
  with \<open>getQueryData\<close> takes the query whose key is the one given; \<open>setQueriesData\<close> and
  \<open>invalidateQueries\<close> take every query whose key starts with the key given. The
  refetch that an invalidation brings about later is not part of the model.
\<close>

record TodoFilters =
  f_completed :: "bool option"
  f_priority :: "priority option"
  f_search :: "string option"
  f_page :: "int option"
  f_limit :: "int option"

datatype list_key = AllLists | ListOf "TodoFilters option"

record TodoListResponse =
  lr_todos :: "todo list"
  lr_total :: int
  lr_page :: int
  lr_limit :: int
  lr_totalPages :: int

record 'a query =
  q_data :: "'a option"
  q_invalidated :: bool

record cache =
  list_queries :: "(list_key \<times> TodoListResponse query) list"
  detail_queries :: "(string \<times> todo query) list"
  stats_query :: "stats query option"

text \<open>
  \<open>setQueryData\<close> on a query that exists: the updater is applied to the data; a result
  that is undefined changes nothing, any other is stored and the query is marked as fresh.
\<close>

definition set_data :: "('a option \<Rightarrow> 'a option) \<Rightarrow> 'a query \<Rightarrow> 'a query" where
  "set_data updater q =
     (case updater (q_data q) of
        None \<Rightarrow> q
      | Some d \<Rightarrow> q\<lparr>q_data := Some d, q_invalidated := False\<rparr>)"

definition invalidate :: "'a query \<Rightarrow> 'a query" where
  "invalidate q = q\<lparr>q_invalidated := True\<rparr>"

text \<open>\<open>getQueryData(queryKeys.todos.lists())\<close> and \<open>getQueryData(queryKeys.todos.detail(id))\<close>.\<close>

definition getQueryData_lists :: "cache \<Rightarrow> TodoListResponse option" where
  "getQueryData_lists c =
     (case map_of (list_queries c) AllLists of None \<Rightarrow> None | Some q \<Rightarrow> q_data q)"

definition getQueryData_detail :: "cache \<Rightarrow> string \<Rightarrow> todo option" where
  "getQueryData_detail c i =
     (case map_of (detail_queries c) i of None \<Rightarrow> None | Some q \<Rightarrow> q_data q)"

text \<open>\<open>setQueriesData({ queryKey: queryKeys.todos.lists() }, updater)\<close>.\<close>

definition setQueriesData_lists ::
  "(TodoListResponse option \<Rightarrow> TodoListResponse option) \<Rightarrow> cache \<Rightarrow> cache" where
  "setQueriesData_lists updater c =
     c\<lparr>list_queries := map (\<lambda>kq. (fst kq, set_data updater (snd kq))) (list_queries c)\<rparr>"

text \<open>
  \<open>setQueryData(queryKeys.todos.detail(id), updater)\<close>: where no such query exists, one
  is built unless the updater gives undefined.
\<close>

definition setQueryData_detail :: "string \<Rightarrow> (todo option \<Rightarrow> todo option) \<Rightarrow> cache \<Rightarrow> cache" where
  "setQueryData_detail i updater c =
     (case map_of (detail_queries c) i of
        Some _ \<Rightarrow>
          c\<lparr>detail_queries :=
              map (\<lambda>kq. if fst kq = i then (fst kq, set_data updater (snd kq)) else kq)
                (detail_queries c)\<rparr>
      | None \<Rightarrow>
          (case updater None of
             None \<Rightarrow> c
           | Some d \<Rightarrow>
               c\<lparr>detail_queries :=
                   detail_queries c @ [(i, \<lparr>q_data = Some d, q_invalidated = False\<rparr>)]\<rparr>))"

text \<open>\<open>invalidateQueries\<close> with each of the three keys the hooks pass.\<close>

datatype invalidated_key = DetailKey string | ListsKey | StatsKey

fun invalidateQueries :: "invalidated_key \<Rightarrow> cache \<Rightarrow> cache" where
  "invalidateQueries (DetailKey i) c =
     c\<lparr>detail_queries :=
         map (\<lambda>kq. if fst kq = i then (fst kq, invalidate (snd kq)) else kq) (detail_queries c)\<rparr>"
| "invalidateQueries ListsKey c =
     c\<lparr>list_queries := map (\<lambda>kq. (fst kq, invalidate (snd kq))) (list_queries c)\<rparr>"
| "invalidateQueries StatsKey c = c\<lparr>stats_query := map_option invalidate (stats_query c)\<rparr>"

section \<open>Client: the mutation hooks\<close>

text \<open>
  \<open>hooks/useTodos.ts\<close>. The client is the cache, the record of the calls of
  \<open>invalidateQueries\<close> and the toasts shown. A hook is run on the final outcome of its
  transport call, after the retry of the mutation defaults; \<open>cancelQueries\<close> stops
  fetches in flight and leaves the cache as it is. \<open>now\<close> is the clock of the client,
  read once for a mutation.
\<close>

datatype toast = SuccessToast string | ErrorToast string

record client =
  cl_cache :: cache
  cl_invalidations :: "invalidated_key list"
  cl_toasts :: "toast list"

record CreateTodoRequest =
  cr_title :: string
  cr_description :: "string option"
  cr_priority :: "priority option"
  cr_due_date :: "int option"

record UpdateTodoRequest =
  ur_title :: "string option"
  ur_description :: "string option"
  ur_completed :: "bool option"
  ur_priority :: "priority option"
  ur_due_date :: "int nullish"

text \<open>
  The outcome of the transport call. Of the value of a success the hooks read one thing,
  the number of rows that the bulk deletion reports; it is what \<open>Succeeded\<close> carries.
\<close>

datatype outcome = Succeeded int | Failed ApiClientError

definition invalidate_call :: "invalidated_key \<Rightarrow> client \<Rightarrow> client" where
  "invalidate_call k s =
     s\<lparr>cl_cache := invalidateQueries k (cl_cache s), cl_invalidations := cl_invalidations s @ [k]\<rparr>"

definition show_toast :: "toast \<Rightarrow> client \<Rightarrow> client" where
  "show_toast t s = s\<lparr>cl_toasts := cl_toasts s @ [t]\<rparr>"

definition on_cache :: "(cache \<Rightarrow> cache) \<Rightarrow> client \<Rightarrow> client" where
  "on_cache f s = s\<lparr>cl_cache := f (cl_cache s)\<rparr>"

text \<open>The context that \<open>onMutate\<close> returns.\<close>

record mutation_context =
  previousTodo :: "todo option"
  previousTodos :: "TodoListResponse option"

text \<open>The rollback of the lists, common to the four hooks.\<close>

definition rollback_lists :: "mutation_context \<Rightarrow> cache \<Rightarrow> cache" where
  "rollback_lists ctx c =
     (case previousTodos ctx of
        None \<Rightarrow> c
      | Some prev \<Rightarrow> setQueriesData_lists (\<lambda>_. Some prev) c)"

definition rollback_detail :: "string \<Rightarrow> mutation_context \<Rightarrow> cache \<Rightarrow> cache" where
  "rollback_detail i ctx c =
     (case previousTodo ctx of
        None \<Rightarrow> c
      | Some prev \<Rightarrow> setQueryData_detail i (\<lambda>_. Some prev) c)"

subsection \<open>useCreateTodo\<close>

definition optimisticTodo :: "int \<Rightarrow> CreateTodoRequest \<Rightarrow> todo" where
  "optimisticTodo now newTodo =
     \<lparr>todo_id = ''temp-'' @ decimal_text now,
      title = cr_title newTodo,
      description = (case cr_description newTodo of
                       None \<Rightarrow> None | Some d \<Rightarrow> if d = [] then None else Some d),
      completed = False,
      priority = (case cr_priority newTodo of None \<Rightarrow> Medium | Some p \<Rightarrow> p),
      due_date = cr_due_date newTodo,
      created_at = now,
      updated_at = now\<rparr>"

definition create_onMutate :: "int \<Rightarrow> CreateTodoRequest \<Rightarrow> cache \<Rightarrow> mutation_context \<times> cache" where
  "create_onMutate now newTodo c =
     (\<lparr>previousTodo = None, previousTodos = getQueryData_lists c\<rparr>,
      setQueriesData_lists
        (map_option (\<lambda>old. old\<lparr>lr_todos := optimisticTodo now newTodo # lr_todos old,
                                 lr_total := lr_total old + 1\<rparr>)) c)"

definition settle_lists_stats :: "client \<Rightarrow> client" where
  "settle_lists_stats s = invalidate_call StatsKey (invalidate_call ListsKey s)"

definition useCreateTodo :: "int \<Rightarrow> CreateTodoRequest \<Rightarrow> outcome \<Rightarrow> client \<Rightarrow> client" where
  "useCreateTodo now newTodo out s =
     (let (ctx, c1) = create_onMutate now newTodo (cl_cache s);
          s1 = s\<lparr>cl_cache := c1\<rparr>;
          s2 = (case out of
                  Failed e \<Rightarrow> show_toast (ErrorToast (ace_message e)) (on_cache (rollback_lists ctx) s1)
                | Succeeded _ \<Rightarrow> show_toast (SuccessToast ''Todo created successfully'') s1)
      in settle_lists_stats s2)"

subsection \<open>useUpdateTodo\<close>

definition merge_update :: "int \<Rightarrow> UpdateTodoRequest \<Rightarrow> todo \<Rightarrow> todo" where
  "merge_update now data old =
     old\<lparr>title := (case ur_title data of None \<Rightarrow> title old | Some t \<Rightarrow> t),
         description := (case ur_description data of None \<Rightarrow> description old | Some d \<Rightarrow> Some d),
         completed := (case ur_completed data of None \<Rightarrow> completed old | Some b \<Rightarrow> b),
         priority := (case ur_priority data of None \<Rightarrow> priority old | Some p \<Rightarrow> p),
         due_date := (case ur_due_date data of
                        Undefined \<Rightarrow> due_date old | Null \<Rightarrow> None | Given d \<Rightarrow> Some d),
         updated_at := now\<rparr>"

text \<open>The two optimistic writes of update and toggle, for a change \<open>f\<close> of one todo.\<close>

definition patch_caches :: "string \<Rightarrow> (todo \<Rightarrow> todo) \<Rightarrow> cache \<Rightarrow> mutation_context \<times> cache" where
  "patch_caches i f c =
     (\<lparr>previousTodo = getQueryData_detail c i, previousTodos = getQueryData_lists c\<rparr>,
      setQueriesData_lists
        (map_option (\<lambda>old. old\<lparr>lr_todos :=
                                   map (\<lambda>t. if todo_id t = i then f t else t) (lr_todos old)\<rparr>))
        (setQueryData_detail i (map_option f) c))"

definition settle_detail_lists_stats :: "string \<Rightarrow> client \<Rightarrow> client" where
  "settle_detail_lists_stats i s =
     invalidate_call StatsKey (invalidate_call ListsKey (invalidate_call (DetailKey i) s))"

definition useUpdateTodo ::
  "int \<Rightarrow> string \<Rightarrow> UpdateTodoRequest \<Rightarrow> outcome \<Rightarrow> client \<Rightarrow> client" where
  "useUpdateTodo now i data out s =
     (let (ctx, c1) = patch_caches i (merge_update now data) (cl_cache s);
          s1 = s\<lparr>cl_cache := c1\<rparr>;
          s2 = (case out of
                  Failed e \<Rightarrow>
                    show_toast (ErrorToast (ace_message e))
                      (on_cache (rollback_lists ctx) (on_cache (rollback_detail i ctx) s1))
                | Succeeded _ \<Rightarrow> show_toast (SuccessToast ''Todo updated successfully'') s1)
      in settle_detail_lists_stats i s2)"

subsection \<open>useDeleteTodo\<close>

definition delete_onMutate :: "string \<Rightarrow> cache \<Rightarrow> mutation_context \<times> cache" where
  "delete_onMutate i c =
     (\<lparr>previousTodo = None, previousTodos = getQueryData_lists c\<rparr>,
      setQueriesData_lists
        (map_option (\<lambda>old. old\<lparr>lr_todos := filter (\<lambda>t. todo_id t \<noteq> i) (lr_todos old),
                                 lr_total := lr_total old - 1\<rparr>)) c)"

definition useDeleteTodo :: "string \<Rightarrow> outcome \<Rightarrow> client \<Rightarrow> client" where
  "useDeleteTodo i out s =
     (let (ctx, c1) = delete_onMutate i (cl_cache s);
          s1 = s\<lparr>cl_cache := c1\<rparr>;
          s2 = (case out of
                  Failed e \<Rightarrow> show_toast (ErrorToast (ace_message e)) (on_cache (rollback_lists ctx) s1)
                | Succeeded _ \<Rightarrow> show_toast (SuccessToast ''Todo deleted successfully'') s1)
      in settle_lists_stats s2)"

subsection \<open>useToggleTodo\<close>

definition toggle_optimistic :: "int \<Rightarrow> todo \<Rightarrow> todo" where
  "toggle_optimistic now old = old\<lparr>completed := \<not> completed old, updated_at := now\<rparr>"

definition useToggleTodo :: "int \<Rightarrow> string \<Rightarrow> outcome \<Rightarrow> client \<Rightarrow> client" where
  "useToggleTodo now i out s =
     (let (ctx, c1) = patch_caches i (toggle_optimistic now) (cl_cache s);
          s1 = s\<lparr>cl_cache := c1\<rparr>;
          s2 = (case out of
                  Failed e \<Rightarrow>
                    show_toast (ErrorToast (ace_message e))
                      (on_cache (rollback_lists ctx) (on_cache (rollback_detail i ctx) s1))
                | Succeeded _ \<Rightarrow> s1)
      in settle_detail_lists_stats i s2)"

subsection \<open>useDeleteCompleted\<close>

text \<open>No optimistic write; the success value is the number of rows deleted.\<close>

definition useDeleteCompleted :: "outcome \<Rightarrow> client \<Rightarrow> client" where
  "useDeleteCompleted out s =
     (case out of
        Succeeded deleted \<Rightarrow>
          invalidate_call StatsKey
            (invalidate_call ListsKey
               (show_toast (SuccessToast (decimal_text deleted @ '' completed todo(s) deleted'')) s))
      | Failed e \<Rightarrow> show_toast (ErrorToast (ace_message e)) s)"

subsection \<open>The mutations together\<close>

datatype mutation =
    Create CreateTodoRequest
  | Update string UpdateTodoRequest
  | Delete string
  | Toggle string

fun run_mutation :: "int \<Rightarrow> mutation \<Rightarrow> outcome \<Rightarrow> client \<Rightarrow> client" where
  "run_mutation now (Create newTodo) out s = useCreateTodo now newTodo out s"
| "run_mutation now (Update i data) out s = useUpdateTodo now i data out s"
| "run_mutation now (Delete i) out s = useDeleteTodo i out s"
| "run_mutation now (Toggle i) out s = useToggleTodo now i out s"

text \<open>
  The calls of \<open>invalidateQueries\<close> that a run adds to the record: what the record
  after the run holds beyond the record before it.
\<close>

definition new_invalidations :: "client \<Rightarrow> client \<Rightarrow> invalidated_key list" where
  "new_invalidations before after =
     drop (length (cl_invalidations before)) (cl_invalidations after)"

section \<open>Example data\<close>

text \<open>Two rows used to instantiate the theorems below; the ids are abbreviated.\<close>

definition row_a :: todo where
  "row_a = \<lparr>todo_id = ''a'', title = ''Buy milk'', description = None, completed = False,
             priority = Medium, due_date = None, created_at = 10, updated_at = 10\<rparr>"

definition row_b :: todo where
  "row_b = \<lparr>todo_id = ''b'', title = ''Write report'', description = Some ''Quarterly'',
             completed = True, priority = High, due_date = Some 50, created_at = 20,
             updated_at = 30\<rparr>"

definition title_patch :: UpdateTodoInput where
  "title_patch = \<lparr>upd_title = Some ''Buy oat milk'', upd_description = Undefined,
     upd_priority = None, upd_due_date = Undefined, upd_completed = None\<rparr>"

definition no_params :: RawListQuery where
  "no_params = \<lparr>raw_completed = None, raw_priority = None, raw_search = None,
                 raw_page = None, raw_limit = None\<rparr>"

text \<open>Forty rows, the first twenty-three of them completed.\<close>

definition numbered_row :: "nat \<Rightarrow> todo" where
  "numbered_row k = \<lparr>todo_id = ''t'' @ replicate k (CHR ''i''), title = ''Task'',
     description = None, completed = (k < 23), priority = Low, due_date = None,
     created_at = int k, updated_at = int k\<rparr>"

definition forty_rows :: table where
  "forty_rows = map numbered_row [0..<40]"

text \<open>
  A cache with one list query (no filters), the detail query of \<open>row_a\<close> and the
  statistics, all fresh; a client on it; a change of title; a transport failure.
\<close>

definition list_ab :: TodoListResponse where
  "list_ab = \<lparr>lr_todos = [row_b, row_a], lr_total = 2, lr_page = 1, lr_limit = 50,
               lr_totalPages = 1\<rparr>"

definition stats_ab :: stats where
  "stats_ab = \<lparr>st_total = 2, st_completed = 1, st_incomplete = 1, st_completionRate = 50,
                st_byPriority = [(High, 1), (Medium, 1)], st_overdue = 0\<rparr>"

definition cache_ab :: cache where
  "cache_ab =
     \<lparr>list_queries = [(ListOf None, \<lparr>q_data = Some list_ab, q_invalidated = False\<rparr>)],
      detail_queries = [(''a'', \<lparr>q_data = Some row_a, q_invalidated = False\<rparr>)],
      stats_query = Some \<lparr>q_data = Some stats_ab, q_invalidated = False\<rparr>\<rparr>"

definition client_ab :: client where
  "client_ab = \<lparr>cl_cache = cache_ab, cl_invalidations = [], cl_toasts = []\<rparr>"

definition retitle :: UpdateTodoRequest where
  "retitle = \<lparr>ur_title = Some ''Buy oat milk'', ur_description = None, ur_completed = None,
               ur_priority = None, ur_due_date = Undefined\<rparr>"

definition unreachable :: ApiClientError where
  "unreachable = \<lparr>ace_message = ''Failed to fetch'', ace_statusCode = 0, ace_details = None\<rparr>"

section \<open>Properties of the error handler\<close>

lemma includes_iff_sublist: "str_includes s sub \<longleftrightarrow> sublist sub s"
  by (induction s) (auto simp: sublist_Cons_right)

text \<open>
  Claim C10. An error that is not a Zod validation error, whose message mentions neither a
  duplicate key nor a foreign key violation, and whose status code is 500 or unset, is
  answered with status 500 and a body whose \<open>error\<close> member is the fixed text
  'Internal server error'; the whole response is built from that text and the error's
  \<open>details\<close> alone, so the message of the exception does not reach it.
\<close>

theorem errorHandler_hides_internal_message:
  assumes "\<not> message_includes m ''duplicate key''"
    and "\<not> message_includes m ''violates foreign key''"
    and "c = None \<or> c = Some 500"
  shows "errorHandler (ApiError m c d) =
           \<lparr>res_status = 500,
            res_body = JsonBody (JObj ((''error'', JStr ''Internal server error'') # details_member d))\<rparr>
         \<and> body_field (errorHandler (ApiError m c d)) ''error''
             = Some (JStr ''Internal server error'')"
  using assms by (auto simp: status_or_500_def body_field_def error_member_def)

theorem errorHandler_hides_internal_message_witness:
  "errorHandler (ApiError (Some ''connect ECONNREFUSED 127.0.0.1:5433'') None None) =
     \<lparr>res_status = 500, res_body = JsonBody (JObj [(''error'', JStr ''Internal server error'')])\<rparr>
   \<and> body_field (errorHandler (ApiError (Some ''connect ECONNREFUSED 127.0.0.1:5433'') None None))
         ''error'' = Some (JStr ''Internal server error'')"
proof -
  have dup: "\<not> message_includes (Some ''connect ECONNREFUSED 127.0.0.1:5433'') ''duplicate key''"
    by (simp add: message_includes_def)
  have fk: "\<not> message_includes (Some ''connect ECONNREFUSED 127.0.0.1:5433'')
              ''violates foreign key''"
    by (simp add: message_includes_def)
  have unset: "(None :: int option) = None \<or> None = Some 500"
    by simp
  from errorHandler_hides_internal_message [OF dup fk unset, of None]
  show ?thesis
    by (simp add: details_member_def body_field_def del: errorHandler.simps)
qed

section \<open>The bodies of the update and toggle handlers\<close>

text \<open>
  What the bodies of the two handlers do with a validated id and patch. Through the routes
  as registered no request reaches them (next section).
\<close>

lemma updated_row_id: "todo_id (updated_row ts now sets r) = todo_id r"
proof -
  have "todo_id (fold (apply_set ts now old) sets x) = todo_id x" for old x
  proof (induction sets arbitrary: x)
    case (Cons c cs)
    have "todo_id (apply_set ts now old c x) = todo_id x"
      by (cases "(ts, now, old, c, x)" rule: apply_set.cases) auto
    with Cons show ?case by simp
  qed simp
  then show ?thesis by (simp add: updated_row_def update_updated_at_column_def)
qed

lemma find_map_update:
  assumes "\<And>r. todo_id (f r) = todo_id r"
  shows "find_row i (map (\<lambda>r. if todo_id r = i then f r else r) tbl) = map_option f (find_row i tbl)"
  unfolding find_row_def using assms by (induction tbl) auto

lemma filter_hd_find:
  "filter (\<lambda>r. todo_id r = i) tbl = x # xs \<Longrightarrow> find_row i tbl = Some x"
  unfolding find_row_def by (induction tbl) (auto split: if_splits)

lemma sql_update_result:
  assumes "sql_update_by_id ts now sets i tbl = Inr res" "first_row_or_404 res = (tbl', Inr r')"
    "find_row i tbl = Some r"
  shows "r' = updated_row ts now sets r"
    and "tbl' = map (\<lambda>x. if todo_id x = i then updated_row ts now sets x else x) tbl"
    and "find_row i tbl' = Some r'"
proof -
  from assms(1) have res: "res = (map (\<lambda>x. if todo_id x = i then updated_row ts now sets x else x) tbl,
             map (updated_row ts now sets) (filter (\<lambda>r. todo_id r = i) tbl))"
    by (auto simp: sql_update_by_id_def split: if_splits)
  from assms(2) obtain rest where
    t: "tbl' = map (\<lambda>x. if todo_id x = i then updated_row ts now sets x else x) tbl"
    and m: "map (updated_row ts now sets) (filter (\<lambda>r. todo_id r = i) tbl) = r' # rest"
    unfolding res first_row_or_404_def by (auto split: list.splits)
  from m obtain x xs where f: "filter (\<lambda>r. todo_id r = i) tbl = x # xs" and r': "r' = updated_row ts now sets x"
    by (cases "filter (\<lambda>r. todo_id r = i) tbl") auto
  from filter_hd_find [OF f] assms(3) have "x = r" by simp
  with r' show "r' = updated_row ts now sets r" by simp
  show "tbl' = map (\<lambda>x. if todo_id x = i then updated_row ts now sets x else x) tbl" by (rule t)
  show "find_row i tbl' = Some r'"
    unfolding t using find_map_update [of "updated_row ts now sets" i tbl] assms(3) \<open>r' = updated_row ts now sets r\<close>
    by (simp add: updated_row_id)
qed

lemma patched_row:
  "updated_row ts now (build_updates input @ [SetUpdatedAtNow]) r =
     r\<lparr>title := (case upd_title input of None \<Rightarrow> title r | Some t \<Rightarrow> t),
       description := (case upd_description input of
                         Undefined \<Rightarrow> description r | Null \<Rightarrow> None | Given d \<Rightarrow> Some d),
       priority := (case upd_priority input of None \<Rightarrow> priority r | Some p \<Rightarrow> p),
       due_date := (case upd_due_date input of
                      Undefined \<Rightarrow> due_date r | Null \<Rightarrow> None | Given s \<Rightarrow> ts s),
       completed := (case upd_completed input of None \<Rightarrow> completed r | Some b \<Rightarrow> b),
       updated_at := now\<rparr>"
  by (simp add: updated_row_def update_updated_at_column_def build_updates_def
      split: option.splits nullish.splits)

lemma toggled_row:
  "updated_row ts now [SetCompletedNot, SetUpdatedAtNow] r =
     r\<lparr>completed := \<not> completed r, updated_at := now\<rparr>"
  by (simp add: updated_row_def update_updated_at_column_def)


lemma sql_update_others:
  "length (map (\<lambda>x. if todo_id x = i then f x else x) tbl) = length tbl
   \<and> (\<forall>k<length tbl. todo_id (tbl ! k) \<noteq> i \<longrightarrow>
         map (\<lambda>x. if todo_id x = i then f x else x) tbl ! k = tbl ! k)"
  by simp

lemma patch_todo_success:
  assumes "patch_todo ts now tbl i input = (tbl', Inr r')" "find_row i tbl = Some r"
  shows "r' = updated_row ts now (build_updates input @ [SetUpdatedAtNow]) r"
    and "tbl' = map (\<lambda>x. if todo_id x = i
                    then updated_row ts now (build_updates input @ [SetUpdatedAtNow]) x else x) tbl"
    and "find_row i tbl' = Some r'"
proof -
  from assms(1) obtain res where
    "sql_update_by_id ts now (build_updates input @ [SetUpdatedAtNow]) i tbl = Inr res"
    "first_row_or_404 res = (tbl', Inr r')"
    by (auto simp: patch_todo_def Let_def split: if_splits sum.splits)
  from sql_update_result [OF this assms(2)]
  show "r' = updated_row ts now (build_updates input @ [SetUpdatedAtNow]) r"
    and "tbl' = map (\<lambda>x. if todo_id x = i
                    then updated_row ts now (build_updates input @ [SetUpdatedAtNow]) x else x) tbl"
    and "find_row i tbl' = Some r'"
    by auto
qed

lemma toggle_todo_success:
  assumes "toggle_todo now tbl i = (tbl', Inr r')" "find_row i tbl = Some r"
  shows "r' = r\<lparr>completed := \<not> completed r, updated_at := now\<rparr>"
    and "tbl' = map (\<lambda>x. if todo_id x = i
                    then x\<lparr>completed := \<not> completed x, updated_at := now\<rparr> else x) tbl"
    and "find_row i tbl' = Some r'"
proof -
  from assms(1) obtain res where
    "sql_update_by_id (\<lambda>_. None) now [SetCompletedNot, SetUpdatedAtNow] i tbl = Inr res"
    "first_row_or_404 res = (tbl', Inr r')"
    by (auto simp: toggle_todo_def split: sum.splits)
  from sql_update_result [OF this assms(2)]
  show "r' = r\<lparr>completed := \<not> completed r, updated_at := now\<rparr>"
    and "tbl' = map (\<lambda>x. if todo_id x = i
                    then x\<lparr>completed := \<not> completed x, updated_at := now\<rparr> else x) tbl"
    and "find_row i tbl' = Some r'"
    by (auto simp: toggled_row)
qed

lemma toggle_todo_existing:
  assumes "find_row i tbl = Some r"
  shows "toggle_todo now tbl i =
     (map (\<lambda>x. if todo_id x = i then x\<lparr>completed := \<not> completed x, updated_at := now\<rparr> else x) tbl,
      Inr (r\<lparr>completed := \<not> completed r, updated_at := now\<rparr>))"
proof -
  from assms obtain xs where "filter (\<lambda>x. todo_id x = i) tbl = r # xs"
    unfolding find_row_def by (induction tbl) (auto split: if_splits)
  then show ?thesis
    by (simp add: toggle_todo_def sql_update_by_id_def first_row_or_404_def toggled_row)
qed

lemma updateTodoSchema_cong:
  assumes "map_of ms ''title'' = map_of ms' ''title''"
    "map_of ms ''description'' = map_of ms' ''description''"
    "map_of ms ''priority'' = map_of ms' ''priority''"
    "map_of ms ''due_date'' = map_of ms' ''due_date''"
    "map_of ms ''completed'' = map_of ms' ''completed''"
  shows "updateTodoSchema datetime (JObj ms) = updateTodoSchema datetime (JObj ms')"
  unfolding updateTodoSchema_def json.case assms ..

lemma map_of_filter_other_key:
  "k' \<noteq> k \<Longrightarrow> map_of (filter (\<lambda>m. fst m \<noteq> k) ms) k' = map_of ms k'"
  by (induction ms) auto

lemma updateTodoSchema_drops_key:
  assumes "''title'' \<noteq> k" "''description'' \<noteq> k" "''priority'' \<noteq> k"
    "''due_date'' \<noteq> k" "''completed'' \<noteq> k"
  shows "updateTodoSchema datetime (JObj (filter (\<lambda>m. fst m \<noteq> k) ms))
         = updateTodoSchema datetime (JObj ms)"
proof (rule updateTodoSchema_cong)
  show "map_of (filter (\<lambda>m. fst m \<noteq> k) ms) ''title'' = map_of ms ''title''"
    by (rule map_of_filter_other_key) (rule assms)
  show "map_of (filter (\<lambda>m. fst m \<noteq> k) ms) ''description'' = map_of ms ''description''"
    by (rule map_of_filter_other_key) (rule assms)
  show "map_of (filter (\<lambda>m. fst m \<noteq> k) ms) ''priority'' = map_of ms ''priority''"
    by (rule map_of_filter_other_key) (rule assms)
  show "map_of (filter (\<lambda>m. fst m \<noteq> k) ms) ''due_date'' = map_of ms ''due_date''"
    by (rule map_of_filter_other_key) (rule assms)
  show "map_of (filter (\<lambda>m. fst m \<noteq> k) ms) ''completed'' = map_of ms ''completed''"
    by (rule map_of_filter_other_key) (rule assms)
qed

lemma build_updates_empty:
  "build_updates \<lparr>upd_title = None, upd_description = Undefined, upd_priority = None,
     upd_due_date = Undefined, upd_completed = None\<rparr> = []"
  by (simp add: build_updates_def)

lemma no_fields_response:
  "errorHandler (createError ''No fields to update'' 400 None) =
     \<lparr>res_status = 400, res_body = JsonBody (JObj [(''error'', JStr ''No fields to update'')])\<rparr>"
  by (simp add: createError_def message_includes_def status_or_500_def details_member_def
      error_member_def)

lemma patch_handler_no_fields:
  "build_updates input = [] \<Longrightarrow>
   patch_handler ts now tbl i input =
     (tbl, \<lparr>res_status = 400,
            res_body = JsonBody (JObj [(''error'', JStr ''No fields to update'')])\<rparr>)"
  by (simp add: patch_handler_def patch_todo_def send_todo_def no_fields_response
      del: errorHandler.simps)

lemma updateTodoSchema_no_fields:
  assumes "map_of ms ''title'' = None" "map_of ms ''description'' = None"
    "map_of ms ''priority'' = None" "map_of ms ''due_date'' = None"
    "map_of ms ''completed'' = None"
  shows "updateTodoSchema datetime (JObj ms) =
     Inr \<lparr>upd_title = None, upd_description = Undefined, upd_priority = None,
          upd_due_date = Undefined, upd_completed = None\<rparr>"
  using assms
  by (simp add: updateTodoSchema_def parse_title_def parse_description_def parse_priority_def
      parse_due_date_def parse_completed_def)

text \<open>
  A validated patch without any field is refused by the body of the \<open>PATCH\<close> handler
  with 'No fields to update' before any statement; a body with none of the five fields of
  the update schema validates to such a patch (\<open>updateTodoSchema_no_fields\<close>,
  \<open>patch_handler_no_fields\<close>).
\<close>

text \<open>
  A successful statement of the update handler returns and stores the row with the fields
  of the patch replaced, \<open>updated_at\<close> set to the current time of the server and every
  other field as before; the statement of the toggle handler negates \<open>completed\<close>, sets
  \<open>updated_at\<close> and keeps every other field; rows with other ids are left as they were;
  and an \<open>updated_at\<close> member of a request body has no effect on the validated patch.
\<close>

lemma handler_bodies_change_only_patch_fields:
  "(patch_todo ts now tbl i input = (tbl', Inr r') \<and> find_row i tbl = Some r \<longrightarrow>
      r' = r\<lparr>title := (case upd_title input of None \<Rightarrow> title r | Some t \<Rightarrow> t),
              description := (case upd_description input of
                                Undefined \<Rightarrow> description r | Null \<Rightarrow> None | Given d \<Rightarrow> Some d),
              priority := (case upd_priority input of None \<Rightarrow> priority r | Some p \<Rightarrow> p),
              due_date := (case upd_due_date input of
                             Undefined \<Rightarrow> due_date r | Null \<Rightarrow> None | Given s \<Rightarrow> ts s),
              completed := (case upd_completed input of None \<Rightarrow> completed r | Some b \<Rightarrow> b),
              updated_at := now\<rparr>
      \<and> find_row i tbl' = Some r'
      \<and> length tbl' = length tbl
      \<and> (\<forall>k<length tbl. todo_id (tbl ! k) \<noteq> i \<longrightarrow> tbl' ! k = tbl ! k))
   \<and> (toggle_todo now tbl i = (tbl2, Inr r2) \<and> find_row i tbl = Some r \<longrightarrow>
      r2 = r\<lparr>completed := \<not> completed r, updated_at := now\<rparr>
      \<and> find_row i tbl2 = Some r2
      \<and> length tbl2 = length tbl
      \<and> (\<forall>k<length tbl. todo_id (tbl ! k) \<noteq> i \<longrightarrow> tbl2 ! k = tbl ! k))
   \<and> updateTodoSchema datetime (JObj (filter (\<lambda>m. fst m \<noteq> ''updated_at'') ms))
       = updateTodoSchema datetime (JObj ms)"
proof (intro conjI impI)
  assume h: "patch_todo ts now tbl i input = (tbl', Inr r') \<and> find_row i tbl = Some r"
  note s = patch_todo_success [OF conjunct1 [OF h] conjunct2 [OF h]]
  from s(1) show "r' = r\<lparr>title := (case upd_title input of None \<Rightarrow> title r | Some t \<Rightarrow> t),
              description := (case upd_description input of
                                Undefined \<Rightarrow> description r | Null \<Rightarrow> None | Given d \<Rightarrow> Some d),
              priority := (case upd_priority input of None \<Rightarrow> priority r | Some p \<Rightarrow> p),
              due_date := (case upd_due_date input of
                             Undefined \<Rightarrow> due_date r | Null \<Rightarrow> None | Given s \<Rightarrow> ts s),
              completed := (case upd_completed input of None \<Rightarrow> completed r | Some b \<Rightarrow> b),
              updated_at := now\<rparr>"
    by (simp only: patched_row)
  from s(3) show "find_row i tbl' = Some r'" .
  from s(2) show "length tbl' = length tbl" by simp
  from s(2) show "\<forall>k<length tbl. todo_id (tbl ! k) \<noteq> i \<longrightarrow> tbl' ! k = tbl ! k" by simp
next
  assume h: "toggle_todo now tbl i = (tbl2, Inr r2) \<and> find_row i tbl = Some r"
  note s = toggle_todo_success [OF conjunct1 [OF h] conjunct2 [OF h]]
  from s(1) show "r2 = r\<lparr>completed := \<not> completed r, updated_at := now\<rparr>" .
  from s(3) show "find_row i tbl2 = Some r2" .
  from s(2) show "length tbl2 = length tbl" by simp
  from s(2) show "\<forall>k<length tbl. todo_id (tbl ! k) \<noteq> i \<longrightarrow> tbl2 ! k = tbl ! k" by simp
next
  show "updateTodoSchema datetime (JObj (filter (\<lambda>m. fst m \<noteq> ''updated_at'') ms))
       = updateTodoSchema datetime (JObj ms)"
    by (rule updateTodoSchema_drops_key) simp_all
qed

lemma patch_handler_title_example:
  "patch_handler (\<lambda>_. None) 99 [row_a, row_b] ''a'' title_patch =
     ([row_a\<lparr>title := ''Buy oat milk'', updated_at := 99\<rparr>, row_b],
      \<lparr>res_status = 200, res_body = TodoBody (row_a\<lparr>title := ''Buy oat milk'', updated_at := 99\<rparr>)\<rparr>)"
  by (simp add: patch_handler_def send_todo_def patch_todo_def build_updates_def title_patch_def
      sql_update_by_id_def updated_row_def update_updated_at_column_def first_row_or_404_def
      row_a_def row_b_def)

text \<open>
  For an id that is in the table, two runs of the body of the toggle handler both succeed,
  the first returns the row with \<open>completed\<close> negated, and after the second the row has
  the flag it had at the start.
\<close>

lemma toggle_todo_twice:
  assumes "find_row i tbl = Some r"
  shows "\<exists>tbl1 r1 tbl2 r2.
           toggle_todo t1 tbl i = (tbl1, Inr r1)
         \<and> toggle_todo t2 tbl1 i = (tbl2, Inr r2)
         \<and> completed r1 = (\<not> completed r)
         \<and> completed r2 = completed r
         \<and> find_row i tbl2 = Some r2
         \<and> map completed tbl2 = map completed tbl"
proof -
  let ?f = "\<lambda>t x. x\<lparr>completed := \<not> completed x, updated_at := t\<rparr>"
  let ?tbl1 = "map (\<lambda>x. if todo_id x = i then ?f t1 x else x) tbl"
  let ?tbl2 = "map (\<lambda>x. if todo_id x = i then ?f t2 x else x) ?tbl1"
  have one: "toggle_todo t1 tbl i = (?tbl1, Inr (?f t1 r))"
    by (rule toggle_todo_existing [OF assms])
  have f1: "find_row i ?tbl1 = Some (?f t1 r)"
    using find_map_update [of "?f t1" i tbl] assms by simp
  have two: "toggle_todo t2 ?tbl1 i = (?tbl2, Inr (?f t2 (?f t1 r)))"
    by (rule toggle_todo_existing [OF f1])
  have f2: "find_row i ?tbl2 = Some (?f t2 (?f t1 r))"
    using find_map_update [of "?f t2" i ?tbl1] f1 by simp
  have m: "map completed ?tbl2 = map completed tbl"
    by (induction tbl) auto
  show ?thesis
    using one two f2 m by (intro exI [of _ ?tbl1] exI [of _ "?f t1 r"] exI [of _ ?tbl2]
        exI [of _ "?f t2 (?f t1 r)"]) simp
qed

lemma toggle_handler_example:
  "toggle_handler 99 [row_a, row_b] ''a'' =
     ([row_a\<lparr>completed := True, updated_at := 99\<rparr>, row_b],
      \<lparr>res_status = 200, res_body = TodoBody (row_a\<lparr>completed := True, updated_at := 99\<rparr>)\<rparr>)"
  by (simp add: toggle_handler_def send_todo_def toggle_todo_def sql_update_by_id_def
      updated_row_def update_updated_at_column_def first_row_or_404_def row_a_def row_b_def)

section \<open>The update and toggle routes as registered\<close>

text \<open>
  The two routes run the parameter middleware first. Its schema is the string schema
  \<open>uuidSchema\<close> (with a transform) and \<open>req.params\<close> is an object, so the parse fails
  for every request: the request is answered with the validation error before the body is
  validated or the handler entered, and the table is left as it was.
\<close>

lemma id_routes_validate_params_first:
  "patch_route uuid datetime ts now tbl i body =
     (tbl, errorHandler (ZodError [issue [] ''Expected string, received object'']))"
  "toggle_route uuid now tbl i =
     (tbl, errorHandler (ZodError [issue [] ''Expected string, received object'']))"
  by (simp_all add: patch_route_def toggle_route_def uuidParams_def)

lemma params_validation_response:
  "errorHandler (ZodError [issue [] ''Expected string, received object'']) =
     \<lparr>res_status = 400,
      res_body = JsonBody (JObj [(''error'', JStr ''Validation failed''),
        (''details'', JArr [JObj [(''path'', JStr []),
                                   (''message'', JStr ''Expected string, received object'')]])])\<rparr>"
  by (simp add: issue_def issue_json_def)

text \<open>
  Claim C5, at a request the code answers otherwise. A \<open>PATCH\<close> whose body is the empty
  object, so that the patch has no recognized field, is answered with status 400 and no
  write, but by the parameter middleware: the error of the answer is 'Validation failed'
  with the detail 'Expected string, received object', where the handler's
  'No fields to update' is expected. This holds for every table and every id in the path,
  whatever the test for a UUID, the test for a date and the clock are.
\<close>

theorem update_no_fields_answered_validation_failed:
  "patch_route uuid datetime ts now tbl i (JObj []) =
     (tbl,
      \<lparr>res_status = 400,
       res_body = JsonBody (JObj [(''error'', JStr ''Validation failed''),
         (''details'', JArr [JObj [(''path'', JStr []),
                                    (''message'', JStr ''Expected string, received object'')]])])\<rparr>)
   \<and> body_field (snd (patch_route uuid datetime ts now tbl i (JObj []))) ''error''
       = Some (JStr ''Validation failed'')"
  by (simp add: id_routes_validate_params_first params_validation_response body_field_def
      del: errorHandler.simps)



section \<open>Properties of the list handler\<close>

lemma matching_rows_set:
  "set (matching_rows q tbl) = {r \<in> set tbl. where_clause q r}"
  by (simp add: matching_rows_def order_by_created_at_desc_def)

lemma matching_rows_sorted:
  "sorted (map (\<lambda>r. - created_at r) (matching_rows q tbl))"
  by (simp add: matching_rows_def order_by_created_at_desc_def)

text \<open>
  For a search text that is plain, the pattern built from it tests for a substring without
  regard to case, and the rows selected are those of the three conditions.
\<close>

lemma like_match_percent:
  "like_match (CHR ''%'' # ps) t \<longleftrightarrow> (\<exists>k\<le>length t. like_match ps (drop k t))"
proof (induction t)
  case Nil
  then show ?case by simp
next
  case (Cons c cs)
  have "(\<exists>k\<le>length (c # cs). like_match ps (drop k (c # cs)))
        \<longleftrightarrow> like_match ps (c # cs) \<or> (\<exists>k\<le>length cs. like_match ps (drop k cs))"
  proof
    assume "\<exists>k\<le>length (c # cs). like_match ps (drop k (c # cs))"
    then obtain k where k: "k \<le> length (c # cs)" "like_match ps (drop k (c # cs))" by blast
    show "like_match ps (c # cs) \<or> (\<exists>k\<le>length cs. like_match ps (drop k cs))"
    proof (cases k)
      case 0
      with k show ?thesis by simp
    next
      case (Suc j)
      with k have "j \<le> length cs" "like_match ps (drop j cs)" by simp_all
      then show ?thesis by blast
    qed
  next
    assume "like_match ps (c # cs) \<or> (\<exists>k\<le>length cs. like_match ps (drop k cs))"
    then show "\<exists>k\<le>length (c # cs). like_match ps (drop k (c # cs))"
    proof
      assume "like_match ps (c # cs)"
      then have "like_match ps (drop 0 (c # cs))" by simp
      then show ?thesis by blast
    next
      assume "\<exists>k\<le>length cs. like_match ps (drop k cs)"
      then obtain k where "k \<le> length cs" "like_match ps (drop k cs)" by blast
      then have "Suc k \<le> length (c # cs)" "like_match ps (drop (Suc k) (c # cs))" by simp_all
      then show ?thesis by blast
    qed
  qed
  with Cons show ?case by simp
qed

lemma like_match_plain:
  "plain s \<Longrightarrow> like_match (s @ ps) t \<longleftrightarrow> prefix s t \<and> like_match ps (drop (length s) t)"
proof (induction s arbitrary: t)
  case Nil
  then show ?case by simp
next
  case (Cons a s)
  then have a: "a \<noteq> CHR ''%''" "a \<noteq> CHR ''_''" "a \<noteq> CHR 0x5C" and s: "plain s"
    by (auto simp: plain_def)
  show ?case
  proof (cases t)
    case Nil
    with a show ?thesis by simp
  next
    case (Cons c cs)
    with a Cons.IH [OF s, of cs] show ?thesis by auto
  qed
qed

lemma like_match_contains:
  assumes "plain s"
  shows "like_match (CHR ''%'' # s @ [CHR ''%'']) t \<longleftrightarrow> str_includes t s"
proof -
  have all: "like_match [CHR ''%''] u" for u
    using like_match_percent [of "[]" u] by auto
  have inner: "like_match (s @ [CHR ''%'']) u \<longleftrightarrow> prefix s u" for u
    using like_match_plain [OF assms, of "[CHR ''%'']" u] all by blast
  have "like_match (CHR ''%'' # s @ [CHR ''%'']) t
        \<longleftrightarrow> (\<exists>k\<le>length t. like_match (s @ [CHR ''%'']) (drop k t))"
    by (rule like_match_percent)
  also have "\<dots> \<longleftrightarrow> (\<exists>k\<le>length t. prefix s (drop k t))"
    by (simp only: inner)
  also have "\<dots> \<longleftrightarrow> sublist s t"
  proof
    assume "\<exists>k\<le>length t. prefix s (drop k t)"
    then obtain k ss where "drop k t = s @ ss" by (auto simp: prefix_def)
    then have "t = take k t @ s @ ss" by (metis append_take_drop_id)
    then show "sublist s t" unfolding sublist_def by blast
  next
    assume "sublist s t"
    then obtain ps ss where t: "t = ps @ s @ ss" unfolding sublist_def by blast
    then have "length ps \<le> length t" "prefix s (drop (length ps) t)" by simp_all
    then show "\<exists>k\<le>length t. prefix s (drop k t)" by blast
  qed
  finally show ?thesis by (simp add: includes_iff_sublist)
qed

lemma to_lower_fixed:
  "to_lower (CHR ''%'') = CHR ''%''"
  by (simp add: to_lower_def)

lemma to_lower_cases:
  "to_lower c = c \<or> (97 \<le> (of_char (to_lower c) :: nat) \<and> (of_char (to_lower c) :: nat) \<le> 122)"
proof (cases "65 \<le> (of_char c :: nat) \<and> (of_char c :: nat) \<le> 90")
  case True
  then have "to_lower c = char_of ((of_char c :: nat) + 32)"
    by (simp add: to_lower_def Let_def)
  moreover have "(of_char (char_of ((of_char c :: nat) + 32)) :: nat) = (of_char c :: nat) + 32"
    using True by (simp add: of_char_of)
  ultimately show ?thesis using True by simp
next
  case False
  then show ?thesis by (simp add: to_lower_def Let_def)
qed

lemma to_lower_special:
  "to_lower c = CHR ''%'' \<longleftrightarrow> c = CHR ''%''"
  "to_lower c = CHR ''_'' \<longleftrightarrow> c = CHR ''_''"
  "to_lower c = CHR 0x5C \<longleftrightarrow> c = CHR 0x5C"
  using to_lower_cases [of c] by (auto simp: to_lower_def)

lemma plain_to_lower:
  assumes "plain s"
  shows "plain (map to_lower s)"
  using assms unfolding plain_def set_map image_iff by (metis to_lower_special)

lemma ilike_plain_search:
  assumes "plain s"
  shows "ilike txt (''%'' @ s @ ''%'') \<longleftrightarrow> str_includes (map to_lower txt) (map to_lower s)"
  using like_match_contains [OF plain_to_lower [OF assms], of "map to_lower txt"]
  by (simp add: ilike_def to_lower_fixed)


lemma where_clause_plain_search:
  assumes "plain s" and "s \<noteq> []" and "lq_search q = Some s"
  shows "where_clause q r \<longleftrightarrow>
           (case lq_completed q of None \<Rightarrow> True | Some b \<Rightarrow> completed r = b)
         \<and> (case lq_priority q of None \<Rightarrow> True | Some p \<Rightarrow> priority r = p)
         \<and> (str_includes (map to_lower (title r)) (map to_lower s)
            \<or> (case description r of
                  None \<Rightarrow> False
                | Some d \<Rightarrow> str_includes (map to_lower d) (map to_lower s)))"
  using assms(2,3) ilike_plain_search [OF assms(1)]
  by (simp add: where_clause_def search_pattern_def split: option.splits)

text \<open>
  Claim C3, at a request the code answers otherwise. The list request without any
  parameter, on a table of one open and one completed row, is answered with the open row
  alone and a total of 1: the schema turns the absent \<open>completed\<close> parameter into
  \<open>false\<close>, and the handler filters on it as on a parameter that was sent.
\<close>

theorem list_without_parameters_omits_completed_rows:
  "list_route [row_a, row_b] no_params =
     Some \<lparr>res_status = 200,
           res_body = ListBody [row_a]
             \<lparr>pg_page = 1, pg_limit = 50, pg_total = 1, pg_totalPages = Some 1\<rparr>\<rparr>"
  by code_simp

text \<open>
  The search text is put between two \<open>%\<close> as it is, so its own \<open>%\<close>, \<open>_\<close> and
  backslash act in the pattern: the search \<open>b_y\<close> finds the title 'Buy milk', of which it
  is no substring.
\<close>

lemma list_search_wildcard:
  "list_route [row_a, row_b] (no_params\<lparr>raw_search := Some ''b_y''\<rparr>) =
     Some \<lparr>res_status = 200,
           res_body = ListBody [row_a]
             \<lparr>pg_page = 1, pg_limit = 50, pg_total = 1, pg_totalPages = Some 1\<rparr>\<rparr>"
  "\<not> str_includes (map to_lower (title row_a)) (map to_lower ''b_y'')"
  by code_simp+

















text \<open>A page of zero passes the schema as well and fails in the database.\<close>

lemma list_page_zero_accepted:
  "list_route [row_a, row_b] (no_params\<lparr>raw_page := Some ''0''\<rparr>) =
     Some \<lparr>res_status = 500,
           res_body = JsonBody (JObj [(''error'', JStr ''Internal server error'')])\<rparr>"
  by code_simp





section \<open>Properties of the statistics\<close>

lemma get_stats_counts:
  "st_completed (get_stats now tbl) + st_incomplete (get_stats now tbl)
     = st_total (get_stats now tbl)"
  "st_overdue (get_stats now tbl)
     = int (card {k. k < length tbl \<and> overdue_row now (tbl ! k)})"
  "overdue_row now r \<Longrightarrow> \<not> completed r"
  "st_total (get_stats now tbl) = 0 \<Longrightarrow> st_completionRate (get_stats now tbl) = 0"
proof -
  show "st_completed (get_stats now tbl) + st_incomplete (get_stats now tbl)
     = st_total (get_stats now tbl)"
    by (simp add: get_stats_def Let_def)
  show "st_overdue (get_stats now tbl)
     = int (card {k. k < length tbl \<and> overdue_row now (tbl ! k)})"
    by (simp add: get_stats_def Let_def length_filter_conv_card)
  show "overdue_row now r \<Longrightarrow> \<not> completed r"
    by (simp add: overdue_row_def)
  show "st_total (get_stats now tbl) = 0 \<Longrightarrow> st_completionRate (get_stats now tbl) = 0"
    by (simp add: get_stats_def Let_def completionRate_def)
qed

text \<open>
  Claim C7, at a table the code answers otherwise. With 23 of 40 rows completed the
  exact rate is 57.5, which rounds to 58; the code divides first, so the product it rounds
  is the double just below 57.5, and the completion rate it reports is 57.
\<close>

theorem stats_completion_rate_23_of_40:
  "get_stats 0 forty_rows =
     \<lparr>st_total = 40, st_completed = 23, st_incomplete = 17, st_completionRate = 57,
      st_byPriority = [(Low, 40)], st_overdue = 0\<rparr>"
  by code_simp

section \<open>Properties of the transport\<close>




section \<open>Properties of the mutation hooks\<close>

lemma invalidations_show_toast: "cl_invalidations (show_toast t s) = cl_invalidations s"
  by (simp add: show_toast_def)

lemma invalidations_on_cache: "cl_invalidations (on_cache f s) = cl_invalidations s"
  by (simp add: on_cache_def)

lemma invalidations_settle_lists_stats:
  "cl_invalidations (settle_lists_stats s) = cl_invalidations s @ [ListsKey, StatsKey]"
  by (simp add: settle_lists_stats_def invalidate_call_def)

lemma invalidations_settle_detail_lists_stats:
  "cl_invalidations (settle_detail_lists_stats i s)
     = cl_invalidations s @ [DetailKey i, ListsKey, StatsKey]"
  by (simp add: settle_detail_lists_stats_def invalidate_call_def)

lemmas invalidations_simps = invalidations_show_toast invalidations_on_cache
  invalidations_settle_lists_stats invalidations_settle_detail_lists_stats

lemma useCreateTodo_invalidations:
  "cl_invalidations (useCreateTodo now n out s) = cl_invalidations s @ [ListsKey, StatsKey]"
  by (cases out) (simp_all add: useCreateTodo_def Let_def case_prod_beta invalidations_simps)

lemma useUpdateTodo_invalidations:
  "cl_invalidations (useUpdateTodo now i d out s)
     = cl_invalidations s @ [DetailKey i, ListsKey, StatsKey]"
  by (cases out) (simp_all add: useUpdateTodo_def Let_def case_prod_beta invalidations_simps)

lemma useDeleteTodo_invalidations:
  "cl_invalidations (useDeleteTodo i out s) = cl_invalidations s @ [ListsKey, StatsKey]"
  by (cases out) (simp_all add: useDeleteTodo_def Let_def case_prod_beta invalidations_simps)

lemma useToggleTodo_invalidations:
  "cl_invalidations (useToggleTodo now i out s)
     = cl_invalidations s @ [DetailKey i, ListsKey, StatsKey]"
  by (cases out) (simp_all add: useToggleTodo_def Let_def case_prod_beta invalidations_simps)

lemma new_invalidations_append:
  "cl_invalidations s' = cl_invalidations s @ ks \<Longrightarrow> new_invalidations s s' = ks"
  by (simp add: new_invalidations_def)

lemma run_mutation_new_invalidations:
  "new_invalidations s (run_mutation now (Create n) out s) = [ListsKey, StatsKey]"
  "new_invalidations s (run_mutation now (Update i d) out s) = [DetailKey i, ListsKey, StatsKey]"
  "new_invalidations s (run_mutation now (Delete i) out s) = [ListsKey, StatsKey]"
  "new_invalidations s (run_mutation now (Toggle i) out s) = [DetailKey i, ListsKey, StatsKey]"
  by (simp_all add: new_invalidations_append useCreateTodo_invalidations
      useUpdateTodo_invalidations useDeleteTodo_invalidations useToggleTodo_invalidations)

lemma run_mutation_keeps_record:
  "take (length (cl_invalidations s)) (cl_invalidations (run_mutation now m out s))
     = cl_invalidations s"
  by (cases m)
    (simp_all add: useCreateTodo_invalidations useUpdateTodo_invalidations
      useDeleteTodo_invalidations useToggleTodo_invalidations)

lemma lists_stats_once:
  "count_list (new_invalidations s (run_mutation now m out s)) ListsKey = 1"
  "count_list (new_invalidations s (run_mutation now m out s)) StatsKey = 1"
  by (cases m; simp only: run_mutation_new_invalidations; simp)+

lemma map_of_map_cond:
  "map_of (map (\<lambda>kq. if fst kq = i then (fst kq, g (snd kq)) else kq) xs) k
     = (if k = i then map_option g (map_of xs k) else map_of xs k)"
  by (induction xs) auto

lemma flags_settle_detail:
  "(case map_of (detail_queries (cl_cache (settle_detail_lists_stats i s))) i of
      None \<Rightarrow> True | Some q \<Rightarrow> q_invalidated q)"
  by (simp add: settle_detail_lists_stats_def invalidate_call_def map_of_map_cond
      invalidate_def split: option.splits)

lemma flags_settle_lists_stats:
  "list_all (\<lambda>kq. q_invalidated (snd kq)) (list_queries (cl_cache (settle_lists_stats s)))"
  "(case stats_query (cl_cache (settle_lists_stats s)) of
      None \<Rightarrow> True | Some q \<Rightarrow> q_invalidated q)"
  by (simp_all add: settle_lists_stats_def invalidate_call_def invalidate_def list_all_iff
      split: option.splits)

lemma flags_settle_detail_lists_stats:
  "list_all (\<lambda>kq. q_invalidated (snd kq))
     (list_queries (cl_cache (settle_detail_lists_stats i s)))"
  "(case stats_query (cl_cache (settle_detail_lists_stats i s)) of
      None \<Rightarrow> True | Some q \<Rightarrow> q_invalidated q)"
  by (simp_all add: settle_detail_lists_stats_def invalidate_call_def invalidate_def list_all_iff
      split: option.splits)

lemma run_mutation_settles:
  "(\<exists>s'. run_mutation now m out s = settle_lists_stats s')
   \<or> (\<exists>i s'. run_mutation now m out s = settle_detail_lists_stats i s')"
  by (cases m)
    (auto simp: useCreateTodo_def useUpdateTodo_def useDeleteTodo_def useToggleTodo_def
      Let_def case_prod_beta)

lemma run_mutation_flags:
  "list_all (\<lambda>kq. q_invalidated (snd kq)) (list_queries (cl_cache (run_mutation now m out s)))"
  "(case stats_query (cl_cache (run_mutation now m out s)) of
      None \<Rightarrow> True | Some q \<Rightarrow> q_invalidated q)"
  using run_mutation_settles [of now m out s]
    flags_settle_lists_stats flags_settle_detail_lists_stats
  by auto

lemma useDeleteCompleted_invalidations:
  "cl_invalidations (useDeleteCompleted out s)
     = cl_invalidations s @ (case out of Succeeded _ \<Rightarrow> [ListsKey, StatsKey] | Failed _ \<Rightarrow> [])"
  by (cases out) (simp_all add: useDeleteCompleted_def invalidate_call_def show_toast_def)


text \<open>
  What a failed mutation does restore: the data of every detail query is as before, and
  no mutation writes the data of the statistics.
\<close>

lemma getQueryData_detail_set:
  "getQueryData_detail (setQueryData_detail i updater c) k =
     (if k = i then
        (case updater (getQueryData_detail c i) of
           None \<Rightarrow> getQueryData_detail c i | Some d \<Rightarrow> Some d)
      else getQueryData_detail c k)"
  by (auto simp: getQueryData_detail_def setQueryData_detail_def map_of_map_cond set_data_def
      split: option.splits)

lemma getQueryData_detail_lists:
  "getQueryData_detail (setQueriesData_lists updater c) k = getQueryData_detail c k"
  by (simp add: getQueryData_detail_def setQueriesData_lists_def)

lemma getQueryData_detail_invalidate:
  "getQueryData_detail (invalidateQueries key c) k = getQueryData_detail c k"
  by (cases key)
    (auto simp: getQueryData_detail_def map_of_map_cond invalidate_def split: option.splits)

lemma getQueryData_detail_rollback_lists:
  "getQueryData_detail (rollback_lists ctx c) k = getQueryData_detail c k"
  by (simp add: rollback_lists_def getQueryData_detail_lists split: option.splits)

lemma getQueryData_detail_settle:
  "getQueryData_detail (cl_cache (settle_lists_stats s)) k = getQueryData_detail (cl_cache s) k"
  "getQueryData_detail (cl_cache (settle_detail_lists_stats i s)) k
     = getQueryData_detail (cl_cache s) k"
  by (simp_all add: settle_lists_stats_def settle_detail_lists_stats_def invalidate_call_def
      getQueryData_detail_invalidate del: invalidateQueries.simps)

lemma patch_caches_then_rollback_detail:
  "getQueryData_detail
     (rollback_detail i (fst (patch_caches i f c)) (snd (patch_caches i f c))) k
   = getQueryData_detail c k"
  by (auto simp: patch_caches_def rollback_detail_def getQueryData_detail_set
      getQueryData_detail_lists split: option.splits)

lemma failed_mutation_restores_detail:
  "getQueryData_detail (cl_cache (run_mutation now m (Failed e) s)) k
     = getQueryData_detail (cl_cache s) k"
proof (cases m)
  case (Create n)
  then show ?thesis
    by (simp add: useCreateTodo_def Let_def case_prod_beta getQueryData_detail_settle
        show_toast_def on_cache_def getQueryData_detail_rollback_lists create_onMutate_def
        getQueryData_detail_lists)
next
  case (Update i d)
  then show ?thesis
    by (simp add: useUpdateTodo_def Let_def case_prod_beta getQueryData_detail_settle
        show_toast_def on_cache_def getQueryData_detail_rollback_lists
        patch_caches_then_rollback_detail)
next
  case (Delete i)
  then show ?thesis
    by (simp add: useDeleteTodo_def Let_def case_prod_beta getQueryData_detail_settle
        show_toast_def on_cache_def getQueryData_detail_rollback_lists delete_onMutate_def
        getQueryData_detail_lists)
next
  case (Toggle i)
  then show ?thesis
    by (simp add: useToggleTodo_def Let_def case_prod_beta getQueryData_detail_settle
        show_toast_def on_cache_def getQueryData_detail_rollback_lists
        patch_caches_then_rollback_detail)
qed

lemma stats_data_invalidate:
  "map_option q_data (stats_query (invalidateQueries key c)) = map_option q_data (stats_query c)"
  by (cases key) (simp_all add: invalidate_def option.map_comp comp_def)

lemma stats_data_settle:
  "map_option q_data (stats_query (cl_cache (settle_lists_stats s)))
     = map_option q_data (stats_query (cl_cache s))"
  "map_option q_data (stats_query (cl_cache (settle_detail_lists_stats i s)))
     = map_option q_data (stats_query (cl_cache s))"
  by (simp_all add: settle_lists_stats_def settle_detail_lists_stats_def invalidate_call_def
      stats_data_invalidate del: invalidateQueries.simps)

lemma stats_query_writes:
  "stats_query (setQueriesData_lists updater c) = stats_query c"
  "stats_query (setQueryData_detail i u c) = stats_query c"
  "stats_query (rollback_lists ctx c) = stats_query c"
  "stats_query (rollback_detail i ctx c) = stats_query c"
  by (simp_all add: setQueriesData_lists_def setQueryData_detail_def rollback_lists_def
      rollback_detail_def split: option.splits)

lemma mutation_keeps_stats_data:
  "map_option q_data (stats_query (cl_cache (run_mutation now m out s)))
     = map_option q_data (stats_query (cl_cache s))"
  by (cases m; cases out)
    (simp_all add: useCreateTodo_def useUpdateTodo_def useDeleteTodo_def useToggleTodo_def
      Let_def case_prod_beta stats_data_settle show_toast_def on_cache_def stats_query_writes
      create_onMutate_def delete_onMutate_def patch_caches_def)

text \<open>
  Claim C1, at a mutation the code settles otherwise. The cache holds the list query of
  the unfiltered list, the detail query of \<open>row_a\<close> and the statistics. An update of the
  title of \<open>row_a\<close> whose transport call fails leaves the list query with the optimistic
  title and time: the snapshot is read under the key \<open>['todos', 'list']\<close>, under which
  no query is stored, so there is nothing to write back. The detail query has its former
  data again and the statistics were never written, as in every failed mutation
  (\<open>failed_mutation_restores_detail\<close>, \<open>mutation_keeps_stats_data\<close>).
\<close>

theorem failed_update_keeps_optimistic_list:
  "getQueryData_lists cache_ab = None
   \<and> cl_cache (run_mutation 99 (Update ''a'' retitle) (Failed unreachable) client_ab) =
     \<lparr>list_queries =
        [(ListOf None,
          \<lparr>q_data = Some (list_ab\<lparr>lr_todos :=
                        [row_b, row_a\<lparr>title := ''Buy oat milk'', updated_at := 99\<rparr>]\<rparr>),
           q_invalidated = True\<rparr>)],
      detail_queries = [(''a'', \<lparr>q_data = Some row_a, q_invalidated = True\<rparr>)],
      stats_query = Some \<lparr>q_data = Some stats_ab, q_invalidated = True\<rparr>\<rparr>"
  by code_simp

lemma failed_create_keeps_optimistic_todo:
  "map (\<lambda>kq. map_option lr_total (q_data (snd kq)))
     (list_queries (cl_cache (run_mutation 99
        (Create \<lparr>cr_title = ''New'', cr_description = None, cr_priority = None,
                  cr_due_date = None\<rparr>) (Failed unreachable) client_ab)))
   = [Some 3]"
  by code_simp

text \<open>
  Claim C2 as stated fails: a mutation whose transport call fails invalidates as one that
  succeeds does.
\<close>

theorem failed_update_invalidates:
  "cl_invalidations (run_mutation 99 (Update ''a'' retitle) (Failed unreachable) client_ab)
     = [DetailKey ''a'', ListsKey, StatsKey]"
  by code_simp

text \<open>
  Claim C2, amended. When a create, update, delete or toggle settles, whether its
  transport call succeeded or failed, the calls of \<open>invalidateQueries\<close> it has added to
  the record name the list prefix exactly once and the statistics exactly once, and for an
  update and a toggle the detail of the id exactly once; the record of the calls before it
  is kept; afterwards every list query and the statistics query are flagged, and for an
  update and a toggle the detail query of the id if there is one. The bulk deletion of
  completed todos invalidates the lists and the statistics once when it succeeds and
  nothing when it fails. The detail of a deleted id is not part of the statement.
\<close>

theorem settled_mutation_invalidates_once:
  "count_list (new_invalidations s (run_mutation now m out s)) ListsKey = 1
   \<and> count_list (new_invalidations s (run_mutation now m out s)) StatsKey = 1
   \<and> count_list (new_invalidations s (run_mutation now (Update i d) out s)) (DetailKey i) = 1
   \<and> count_list (new_invalidations s (run_mutation now (Toggle i) out s)) (DetailKey i) = 1
   \<and> take (length (cl_invalidations s)) (cl_invalidations (run_mutation now m out s))
       = cl_invalidations s
   \<and> list_all (\<lambda>kq. q_invalidated (snd kq)) (list_queries (cl_cache (run_mutation now m out s)))
   \<and> (case stats_query (cl_cache (run_mutation now m out s)) of
         None \<Rightarrow> True | Some q \<Rightarrow> q_invalidated q)
   \<and> (case map_of (detail_queries (cl_cache (run_mutation now (Update i d) out s))) i of
         None \<Rightarrow> True | Some q \<Rightarrow> q_invalidated q)
   \<and> (case map_of (detail_queries (cl_cache (run_mutation now (Toggle i) out s))) i of
         None \<Rightarrow> True | Some q \<Rightarrow> q_invalidated q)
   \<and> cl_invalidations (useDeleteCompleted out s)
       = cl_invalidations s @ (case out of Succeeded _ \<Rightarrow> [ListsKey, StatsKey] | Failed _ \<Rightarrow> [])"
proof (intro conjI)
  show "count_list (new_invalidations s (run_mutation now m out s)) ListsKey = 1"
    by (rule lists_stats_once)
  show "count_list (new_invalidations s (run_mutation now m out s)) StatsKey = 1"
    by (rule lists_stats_once)
  show "count_list (new_invalidations s (run_mutation now (Update i d) out s)) (DetailKey i) = 1"
    unfolding run_mutation_new_invalidations by simp
  show "count_list (new_invalidations s (run_mutation now (Toggle i) out s)) (DetailKey i) = 1"
    unfolding run_mutation_new_invalidations by simp
  show "take (length (cl_invalidations s)) (cl_invalidations (run_mutation now m out s))
       = cl_invalidations s"
    by (rule run_mutation_keeps_record)
  show "list_all (\<lambda>kq. q_invalidated (snd kq))
          (list_queries (cl_cache (run_mutation now m out s)))"
    by (rule run_mutation_flags)
  show "case stats_query (cl_cache (run_mutation now m out s)) of
         None \<Rightarrow> True | Some q \<Rightarrow> q_invalidated q"
    by (rule run_mutation_flags)
  show "case map_of (detail_queries (cl_cache (run_mutation now (Update i d) out s))) i of
         None \<Rightarrow> True | Some q \<Rightarrow> q_invalidated q"
    by (simp add: useUpdateTodo_def Let_def case_prod_beta flags_settle_detail)
  show "case map_of (detail_queries (cl_cache (run_mutation now (Toggle i) out s))) i of
         None \<Rightarrow> True | Some q \<Rightarrow> q_invalidated q"
    by (simp add: useToggleTodo_def Let_def case_prod_beta flags_settle_detail)
  show "cl_invalidations (useDeleteCompleted out s)
       = cl_invalidations s @ (case out of Succeeded _ \<Rightarrow> [ListsKey, StatsKey] | Failed _ \<Rightarrow> [])"
    by (rule useDeleteCompleted_invalidations)
qed

theorem settled_mutation_invalidates_once_witness:
  "new_invalidations client_ab (run_mutation 99 (Toggle ''a'') (Succeeded 0) client_ab)
     = [DetailKey ''a'', ListsKey, StatsKey]
   \<and> new_invalidations client_ab (run_mutation 99 (Toggle ''a'') (Failed unreachable) client_ab)
     = [DetailKey ''a'', ListsKey, StatsKey]
   \<and> count_list [DetailKey ''a'', ListsKey, StatsKey] ListsKey = 1
   \<and> count_list [DetailKey ''a'', ListsKey, StatsKey] StatsKey = 1
   \<and> count_list [DetailKey ''a'', ListsKey, StatsKey] (DetailKey ''a'') = 1"
proof -
  have ok: "new_invalidations client_ab (run_mutation 99 (Toggle ''a'') (Succeeded 0) client_ab)
     = [DetailKey ''a'', ListsKey, StatsKey]"
    by code_simp
  have failed:
    "new_invalidations client_ab (run_mutation 99 (Toggle ''a'') (Failed unreachable) client_ab)
     = [DetailKey ''a'', ListsKey, StatsKey]"
    by code_simp
  from settled_mutation_invalidates_once
    [of client_ab 99 "Toggle ''a''" "Succeeded 0" "''a''" retitle]
  show ?thesis
    unfolding ok failed by simp
qed


end
